theory Spec2Isabelle
  imports Complex_Main "HOL-Library.Sublist"
begin

unbundle bit_operations_syntax

section \<open>JavaScript values used by server.js\<close>

text \<open>
  The Number values that \<open>JSON.parse\<close> can produce: a finite IEEE double, given by its
  exact value, or an infinity (from a literal beyond the double range). The two zeros are
  not told apart: both are falsy and both are written as 0.
\<close>

datatype double = Finite rat | PosInfinity | NegInfinity

text \<open>
  The values that \<open>JSON.parse\<close> produces (the data of an upstream response, a request
  body). An object lists each of its own properties once, in property order.
\<close>

datatype json =
    JNull
  | JBool bool
  | JNumber double
  | JString string
  | JArray "json list"
  | JObject "(string \<times> json) list"

text \<open>A thrown JavaScript error: its \<open>name\<close> and its \<open>message\<close>.\<close>

datatype js_error = JsError (err_name: string) (err_message: string)

text \<open>Truthiness of a value (\<open>if (v)\<close>, \<open>v || w\<close>).\<close>

fun truthy :: "json \<Rightarrow> bool" where
  "truthy JNull = False"
| "truthy (JBool b) = b"
| "truthy (JNumber x) = (x \<noteq> Finite 0)"
| "truthy (JString s) = (s \<noteq> [])"
| "truthy (JArray xs) = True"
| "truthy (JObject kvs) = True"

text \<open>
  Reading a property \<open>v.k\<close> of a parsed JSON value, for a key that no prototype
  defines: \<open>None\<close> is \<open>undefined\<close>; reading a property of \<open>null\<close> throws a TypeError.
\<close>

fun getProp :: "json \<Rightarrow> string \<Rightarrow> js_error + json option" where
  "getProp JNull k = Inl (JsError ''TypeError'' (''Cannot read properties of null (reading '' @ k @ '')''))"
| "getProp (JObject kvs) k = Inr (map_of kvs k)"
| "getProp v k = Inr None"

text \<open>
  \<open>v.includes(s)\<close> for a string \<open>s\<close>: on an array, membership by SameValueZero; on a
  string, the substring test; any other parsed JSON value has no callable \<open>includes\<close>.
\<close>

fun js_includes :: "json \<Rightarrow> string \<Rightarrow> js_error + bool" where
  "js_includes (JArray xs) s = Inr (JString s \<in> set xs)"
| "js_includes (JString t) s = Inr (sublist s t)"
| "js_includes v s = Inl (JsError ''TypeError'' ''botGuilds.includes is not a function'')"

subsection \<open>BigInt\<close>

text \<open>
  \<open>BigInt(v)\<close> for the two shapes in which the identity provider serialises a permission
  bitmask: a string, or a number holding an integer. Characters are code units below 256.
\<close>

datatype jsperm = PermString string | PermNumber int

definition isStrWhiteSpaceChar :: "char \<Rightarrow> bool" where
  "isStrWhiteSpaceChar c = ((of_char c :: nat) \<in> {9, 10, 11, 12, 13, 32, 160})"

definition trimString :: "string \<Rightarrow> string" where
  "trimString s = rev (dropWhile isStrWhiteSpaceChar (rev (dropWhile isStrWhiteSpaceChar s)))"

definition digitValue :: "char \<Rightarrow> nat option" where
  "digitValue c =
     (let n = (of_char c :: nat) in
      if 48 \<le> n \<and> n \<le> 57 then Some (n - 48)
      else if 97 \<le> n \<and> n \<le> 102 then Some (n - 87)
      else if 65 \<le> n \<and> n \<le> 70 then Some (n - 55)
      else None)"

fun parseDigits :: "nat \<Rightarrow> string \<Rightarrow> nat \<Rightarrow> nat option" where
  "parseDigits r [] acc = Some acc"
| "parseDigits r (c # cs) acc =
     (case digitValue c of
        None \<Rightarrow> None
      | Some d \<Rightarrow> if d < r then parseDigits r cs (acc * r + d) else None)"

definition parseInteger :: "nat \<Rightarrow> string \<Rightarrow> nat option" where
  "parseInteger r ds = (if ds = [] then None else parseDigits r ds 0)"

text \<open>
  StringToBigInt: surrounding white space is dropped; the empty string is 0; a literal is
  an optionally signed run of decimal digits, or an unsigned run of digits after one of
  the prefixes 0x, 0o, 0b (either case). Anything else is not a BigInt.
\<close>

definition StringToBigInt :: "string \<Rightarrow> int option" where
  "StringToBigInt s =
     (case trimString s of
        [] \<Rightarrow> Some 0
      | [c] \<Rightarrow> map_option int (parseInteger 10 [c])
      | c # d # ds \<Rightarrow>
          if c = CHR ''0'' \<and> (d = CHR ''x'' \<or> d = CHR ''X'') then map_option int (parseInteger 16 ds)
          else if c = CHR ''0'' \<and> (d = CHR ''o'' \<or> d = CHR ''O'') then map_option int (parseInteger 8 ds)
          else if c = CHR ''0'' \<and> (d = CHR ''b'' \<or> d = CHR ''B'') then map_option int (parseInteger 2 ds)
          else if c = CHR ''+'' then map_option int (parseInteger 10 (d # ds))
          else if c = CHR ''-'' then map_option (\<lambda>n. - int n) (parseInteger 10 (d # ds))
          else map_option int (parseInteger 10 (c # d # ds)))"

definition BigInt :: "jsperm \<Rightarrow> js_error + int" where
  "BigInt v =
     (case v of
        PermNumber n \<Rightarrow> Inr n
      | PermString s \<Rightarrow>
          (case StringToBigInt s of
             None \<Rightarrow> Inl (JsError ''SyntaxError'' (''Cannot convert '' @ s @ '' to a BigInt''))
           | Some n \<Rightarrow> Inr n))"


section \<open>JSON texts: JSON.parse and JSON.stringify\<close>

text \<open>
  The JSON value that the text of a body carries. A number literal denotes a rational
  number exactly. An object lists each member once, in the order in which JavaScript
  enumerates the properties of the parsed object.
\<close>

datatype wire =
    WNull
  | WBool bool
  | WNumber rat
  | WString string
  | WArray "wire list"
  | WObject "(string \<times> wire) list"

text \<open>The body of an upstream response: a JSON text, or text that is not JSON.\<close>

datatype body = JsonText wire | OtherText string

subsection \<open>From a number literal to a double\<close>

text \<open>The number of digits of \<open>n\<close> in base \<open>b\<close>.\<close>

fun digitsFrom :: "nat \<Rightarrow> nat \<Rightarrow> nat \<Rightarrow> nat" where
  "digitsFrom b n acc = (if n = 0 \<or> b < 2 then acc else digitsFrom b (n div b) (Suc acc))"

declare digitsFrom.simps [simp del]

definition digitLength :: "nat \<Rightarrow> nat \<Rightarrow> nat" where
  "digitLength b n = digitsFrom b n 0"

text \<open>For \<open>a > 0\<close>, the integer \<open>k\<close> with \<open>b ^ k \<le> a < b ^ (k + 1)\<close>.\<close>

definition floorLog :: "nat \<Rightarrow> rat \<Rightarrow> int" where
  "floorLog b a =
     (if 1 \<le> a then int (digitLength b (nat \<lfloor>a\<rfloor>)) - 1
      else - int (digitLength b (nat (\<lceil>1 / a\<rceil> - 1))))"

text \<open>\<open>b\<close> to an integer power.\<close>

definition scaleBy :: "nat \<Rightarrow> int \<Rightarrow> rat" where
  "scaleBy b p = (if 0 \<le> p then of_nat b ^ nat p else 1 / of_nat b ^ nat (- p))"

definition roundHalfEven :: "rat \<Rightarrow> int" where
  "roundHalfEven m =
     (if m - of_int \<lfloor>m\<rfloor> < 1 / 2 then \<lfloor>m\<rfloor>
      else if 1 / 2 < m - of_int \<lfloor>m\<rfloor> then \<lfloor>m\<rfloor> + 1
      else if even \<lfloor>m\<rfloor> then \<lfloor>m\<rfloor> else \<lfloor>m\<rfloor> + 1)"

text \<open>
  The binary exponent of the last place of the double nearest to \<open>a > 0\<close>: 53 significant
  bits, and never below \<open>2 ^ - 1074\<close>, the spacing of the subnormal numbers.
\<close>

definition binaryScale :: "rat \<Rightarrow> int" where
  "binaryScale a = (if a < 1 / 2 ^ 1022 then - 1074 else floorLog 2 a - 52)"

text \<open>
  Rounding \<open>a > 0\<close> to the nearest double, ties to the even significand; \<open>None\<close> when the
  result is beyond the largest double.
\<close>

definition roundMagnitude :: "rat \<Rightarrow> rat option" where
  "roundMagnitude a =
     (if 2 ^ 1024 \<le> a then None
      else if 2 ^ 1024 \<le> of_int (roundHalfEven (a / scaleBy 2 (binaryScale a))) * scaleBy 2 (binaryScale a)
      then None
      else Some (of_int (roundHalfEven (a / scaleBy 2 (binaryScale a))) * scaleBy 2 (binaryScale a)))"

definition toDouble :: "rat \<Rightarrow> double" where
  "toDouble q =
     (if q = 0 then Finite 0
      else if 0 < q then (case roundMagnitude q of None \<Rightarrow> PosInfinity | Some r \<Rightarrow> Finite r)
      else (case roundMagnitude (- q) of None \<Rightarrow> NegInfinity | Some r \<Rightarrow> Finite (- r)))"

subsection \<open>From a double to a number literal\<close>

text \<open>
  \<open>Number::toString\<close> writes the decimal with the fewest significant digits that reads
  back as the same double, and the nearest to it among those. For \<open>k\<close> digits the
  candidates are the two multiples of \<open>u = 10 ^ (n - k)\<close> around \<open>x\<close>, where
  \<open>10 ^ (n - 1) \<le> x < 10 ^ n\<close>; 17 digits always suffice.
\<close>

definition below :: "rat \<Rightarrow> rat \<Rightarrow> rat" where
  "below x u = of_int \<lfloor>x / u\<rfloor> * u"

definition above :: "rat \<Rightarrow> rat \<Rightarrow> rat" where
  "above x u = of_int (\<lfloor>x / u\<rfloor> + 1) * u"

definition nearer :: "rat \<Rightarrow> rat \<Rightarrow> rat" where
  "nearer x u =
     (if x - below x u < above x u - x then below x u
      else if above x u - x < x - below x u then above x u
      else if even \<lfloor>x / u\<rfloor> then below x u else above x u)"

definition readsBack :: "rat \<Rightarrow> rat \<Rightarrow> bool" where
  "readsBack x v = (toDouble v = Finite x)"

definition candidate :: "rat \<Rightarrow> rat \<Rightarrow> rat option" where
  "candidate x u =
     (if readsBack x (below x u)
      then (if readsBack x (above x u) then Some (nearer x u) else Some (below x u))
      else if readsBack x (above x u) then Some (above x u) else None)"

fun shortestAmong :: "nat list \<Rightarrow> int \<Rightarrow> rat \<Rightarrow> rat" where
  "shortestAmong [] n x = x"
| "shortestAmong (k # ks) n x =
     (case candidate x (scaleBy 10 (n - int k)) of
        Some v \<Rightarrow> v
      | None \<Rightarrow> shortestAmong ks n x)"

definition shortestMagnitude :: "rat \<Rightarrow> rat" where
  "shortestMagnitude x =
     shortestAmong [1, 2, 3, 4, 5, 6, 7, 8, 9, 10, 11, 12, 13, 14, 15, 16, 17] (floorLog 10 x + 1) x"

definition shortestDecimal :: "rat \<Rightarrow> rat" where
  "shortestDecimal x =
     (if x = 0 then 0
      else if 0 < x then shortestMagnitude x
      else - shortestMagnitude (- x))"

subsection \<open>Values\<close>

fun JSON_parse :: "wire \<Rightarrow> json" where
  "JSON_parse WNull = JNull"
| "JSON_parse (WBool b) = JBool b"
| "JSON_parse (WNumber q) = JNumber (toDouble q)"
| "JSON_parse (WString s) = JString s"
| "JSON_parse (WArray ws) = JArray (map JSON_parse ws)"
| "JSON_parse (WObject kvs) = JObject (map (\<lambda>(k, w). (k, JSON_parse w)) kvs)"

text \<open>\<open>JSON.stringify\<close> writes an infinity as \<open>null\<close>.\<close>

fun JSON_stringify :: "json \<Rightarrow> wire" where
  "JSON_stringify JNull = WNull"
| "JSON_stringify (JBool b) = WBool b"
| "JSON_stringify (JNumber (Finite x)) = WNumber (shortestDecimal x)"
| "JSON_stringify (JNumber PosInfinity) = WNull"
| "JSON_stringify (JNumber NegInfinity) = WNull"
| "JSON_stringify (JString s) = WString s"
| "JSON_stringify (JArray vs) = WArray (map JSON_stringify vs)"
| "JSON_stringify (JObject kvs) = WObject (map (\<lambda>(k, v). (k, JSON_stringify v)) kvs)"

section \<open>Data model\<close>

text \<open>One entry of \<open>profile.guilds\<close>, as the identity provider returns it.\<close>

record guild =
  guild_id :: string
  guild_name :: string
  guild_icon :: "string option"
  permissions :: jsperm

text \<open>
  The profile that passport keeps in the session (\<open>req.user\<close>). The field \<open>guilds\<close> is
  absent when the provider's guild list was not fetched.
\<close>

record identity =
  user_id :: string
  username :: string
  guilds :: "guild list option"

record guild_summary =
  gs_id :: string
  gs_name :: string
  gs_icon :: "string option"
  botInGuild :: bool

record bot_api =
  api_url :: string
  api_key :: string

record bot_config =
  cfg_name :: string
  cfg_logoUrl :: string
  cfg_themeColor :: string
  cfg_supportUrl :: string
  cfg_inviteUrl :: "string option"
  cfg_privacyUrl :: string
  cfg_termsUrl :: string
  cfg_clientId :: "string option"

text \<open>The argument of one \<open>axios(config)\<close> call.\<close>

record axios_config =
  ax_method :: string
  ax_url :: string
  ax_headers :: "(string \<times> string) list"
  ax_data :: "json option"

text \<open>What the identity provider's callback gives \<open>passport.authenticate\<close>.\<close>

datatype oauth_result = OAuthSuccess identity | OAuthFailure | OAuthError js_error

text \<open>
  Everything outside the process during one request: the configuration read from the
  environment at start-up, the upstream bot API (a call is rejected with an error, or
  answered with a body), the outcome of the OAuth exchange, and the error, if any, that
  \<open>req.logout\<close> hands to its callback.
\<close>

record env =
  BOT_API :: bot_api
  BOT_CONFIG :: bot_config
  BOT_OWNER_ID :: "string option"
  upstream :: "axios_config \<Rightarrow> js_error + body"
  oauth :: oauth_result
  logout_error :: "js_error option"

text \<open>
  \<open>axios(config)\<close>: rejects when the call is rejected; otherwise \<open>response.data\<close> is the
  body parsed by \<open>JSON.parse\<close>, or the body as a string when it is not JSON.
\<close>

definition axios :: "env \<Rightarrow> axios_config \<Rightarrow> js_error + json" where
  "axios e config =
     (case upstream e config of
        Inl error \<Rightarrow> Inl error
      | Inr (JsonText w) \<Rightarrow> Inr (JSON_parse w)
      | Inr (OtherText t) \<Rightarrow> Inr (JString t))"

text \<open>
  The request as a handler sees it: \<open>req.user\<close> (set by \<open>passport.session()\<close> from the
  session, absent for a client with no stored identity), \<open>req.params.guildId\<close>, and
  \<open>req.body\<close>.
\<close>

record request =
  user :: "identity option"
  guildId :: string
  body :: "json option"

text \<open>The locals handed to a view.\<close>

record locals =
  l_user :: "identity option"
  l_guilds :: "guild_summary list option"
  l_guild :: "json option"
  l_botConfig :: bot_config
  l_page :: "string option"
  l_ownerID :: "string option"

datatype response =
    Redirect string
  | RedirectToProvider
  | Send nat string
  | SendJson nat json
  | Render nat string locals

fun status :: "response \<Rightarrow> nat" where
  "status (Redirect p) = 302"
| "status RedirectToProvider = 302"
| "status (Send n t) = n"
| "status (SendJson n j) = n"
| "status (Render n v l) = n"

text \<open>
  The JSON value that the client receives from \<open>res.json(v)\<close>, which writes
  \<open>JSON.stringify(v)\<close>.
\<close>

fun jsonBody :: "response \<Rightarrow> wire option" where
  "jsonBody (SendJson n v) = Some (JSON_stringify v)"
| "jsonBody r = None"

text \<open>Observable effects of a handler, in the order they happen.\<close>

datatype log_arg = Message string | ErrorObject js_error

datatype event = AxiosCall axios_config | ConsoleError string log_arg

record outcome =
  response :: response
  trace :: "event list"

section \<open>Helpers\<close>

text \<open>\<open>Array.prototype.filter\<close> and \<open>map\<close> with a callback that may throw.\<close>

fun Array_filter :: "('a \<Rightarrow> js_error + bool) \<Rightarrow> 'a list \<Rightarrow> js_error + 'a list" where
  "Array_filter p [] = Inr []"
| "Array_filter p (x # xs) =
     (case p x of
        Inl e \<Rightarrow> Inl e
      | Inr b \<Rightarrow>
          (case Array_filter p xs of
             Inl e \<Rightarrow> Inl e
           | Inr ys \<Rightarrow> Inr (if b then x # ys else ys)))"

fun Array_map :: "('a \<Rightarrow> js_error + 'b) \<Rightarrow> 'a list \<Rightarrow> js_error + 'b list" where
  "Array_map f [] = Inr []"
| "Array_map f (x # xs) =
     (case f x of
        Inl e \<Rightarrow> Inl e
      | Inr y \<Rightarrow>
          (case Array_map f xs of
             Inl e \<Rightarrow> Inl e
           | Inr ys \<Rightarrow> Inr (y # ys)))"

text \<open>\<open>req.isAuthenticated()\<close> of passport: whether the request carries a user.\<close>

definition req_isAuthenticated :: "request \<Rightarrow> bool" where
  "req_isAuthenticated req = (user req \<noteq> None)"

text \<open>The middleware \<open>isAuthenticated(req, res, next)\<close>; \<open>next\<close> is the rest of the route.\<close>

definition isAuthenticated :: "request \<Rightarrow> outcome \<Rightarrow> outcome" where
  "isAuthenticated req next =
     (if req_isAuthenticated req then next
      else \<lparr>response = Redirect ''/'', trace = []\<rparr>)"

text \<open>
  \<open>callBotAPI(endpoint, method, data)\<close>: one \<open>axios\<close> call; a rejection is logged with
  the endpoint and thrown again. \<open>None\<close> for \<open>data\<close> is the default \<open>null\<close>.
\<close>

definition axiosConfig :: "env \<Rightarrow> string \<Rightarrow> string \<Rightarrow> json option \<Rightarrow> axios_config" where
  "axiosConfig e endpoint method data =
     \<lparr>ax_method = method,
      ax_url = api_url (BOT_API e) @ endpoint,
      ax_headers = [(''Authorization'', ''Bearer '' @ api_key (BOT_API e)),
                    (''Content-Type'', ''application/json'')],
      ax_data = (case data of
                   None \<Rightarrow> None
                 | Some d \<Rightarrow> if truthy d then Some d else None)\<rparr>"

definition callBotAPI :: "env \<Rightarrow> string \<Rightarrow> string \<Rightarrow> json option \<Rightarrow> (js_error + json) \<times> event list" where
  "callBotAPI e endpoint method data =
     (let config = axiosConfig e endpoint method data
      in case axios e config of
           Inr response_data \<Rightarrow> (Inr response_data, [AxiosCall config])
         | Inl error \<Rightarrow>
             (Inl error,
              [AxiosCall config,
               ConsoleError (''API Error ['' @ endpoint @ '']:'') (Message (err_message error))]))"

text \<open>\<open>req.user.guilds || []\<close>; reading \<open>guilds\<close> of an absent user throws.\<close>

definition guildsOrEmpty :: "identity \<Rightarrow> guild list" where
  "guildsOrEmpty u = (case guilds u of None \<Rightarrow> [] | Some gs \<Rightarrow> gs)"

definition userGuilds :: "request \<Rightarrow> js_error + guild list" where
  "userGuilds req =
     (case user req of
        None \<Rightarrow> Inl (JsError ''TypeError'' ''Cannot read properties of undefined (reading guilds)'')
      | Some u \<Rightarrow> Inr (guildsOrEmpty u))"

section \<open>Server selector: GET /dashboard\<close>

text \<open>The filter callback \<open>g => (BigInt(g.permissions) & 0x20n) === 0x20n\<close>.\<close>

definition hasManageServer :: "guild \<Rightarrow> js_error + bool" where
  "hasManageServer g =
     (case BigInt (permissions g) of
        Inl e \<Rightarrow> Inl e
      | Inr p \<Rightarrow> Inr ((p AND 0x20) = 0x20))"

definition managedGuilds :: "guild list \<Rightarrow> js_error + guild list" where
  "managedGuilds gs = Array_filter hasManageServer gs"

text \<open>
  The inner \<open>try\<close>: \<open>botGuilds\<close> starts as \<open>[]\<close> and becomes \<open>botData.guilds || []\<close>
  when the call and the property read succeed; otherwise the failure is logged.
\<close>

definition fetchBotGuilds :: "env \<Rightarrow> json \<times> event list" where
  "fetchBotGuilds e =
     (case callBotAPI e ''/api/bot/guilds'' ''GET'' None of
        (Inl error, tr) \<Rightarrow>
          (JArray [], tr @ [ConsoleError ''Failed to fetch bot guilds:'' (Message (err_message error))])
      | (Inr botData, tr) \<Rightarrow>
          (case getProp botData ''guilds'' of
             Inl error \<Rightarrow>
               (JArray [], tr @ [ConsoleError ''Failed to fetch bot guilds:'' (Message (err_message error))])
           | Inr None \<Rightarrow> (JArray [], tr)
           | Inr (Some v) \<Rightarrow> (if truthy v then v else JArray [], tr)))"

text \<open>The map callback building one selector entry.\<close>

definition guildSummary :: "json \<Rightarrow> guild \<Rightarrow> js_error + guild_summary" where
  "guildSummary botGuilds g =
     (case js_includes botGuilds (guild_id g) of
        Inl e \<Rightarrow> Inl e
      | Inr b \<Rightarrow>
          Inr \<lparr>gs_id = guild_id g,
               gs_name = guild_name g,
               gs_icon = (case guild_icon g of
                            None \<Rightarrow> None
                          | Some i \<Rightarrow>
                              if i = [] then None
                              else Some (''https://cdn.discordapp.com/icons/'' @ guild_id g @ ''/'' @ i @ ''.png'')),
               botInGuild = b\<rparr>)"

definition dashboardError :: "event list \<Rightarrow> js_error \<Rightarrow> outcome" where
  "dashboardError tr error =
     \<lparr>response = Send 500 ''Error loading dashboard'',
      trace = tr @ [ConsoleError ''Dashboard error:'' (ErrorObject error)]\<rparr>"

definition dashboard :: "env \<Rightarrow> request \<Rightarrow> outcome" where
  "dashboard e req =
     (case userGuilds req of
        Inl error \<Rightarrow> dashboardError [] error
      | Inr ugs \<Rightarrow>
          (case managedGuilds ugs of
             Inl error \<Rightarrow> dashboardError [] error
           | Inr mgs \<Rightarrow>
               (case fetchBotGuilds e of
                  (botGuilds, tr) \<Rightarrow>
                    (case Array_map (guildSummary botGuilds) mgs of
                       Inl error \<Rightarrow> dashboardError tr error
                     | Inr gs \<Rightarrow>
                         \<lparr>response = Render 200 ''selector''
                            \<lparr>l_user = user req, l_guilds = Some gs, l_guild = None,
                             l_botConfig = BOT_CONFIG e, l_page = Some ''selector'',
                             l_ownerID = None\<rparr>,
                          trace = tr\<rparr>))))"

section \<open>Guild pages: GET /dashboard/:guildId and its sub-pages\<close>

text \<open>
  The three handlers share their text up to the view, the page name, the label of the
  log line, the text of the failure page and the extra local \<open>ownerID\<close> of the AI chat page.
\<close>

definition findUserGuild :: "guild list \<Rightarrow> string \<Rightarrow> guild option" where
  "findUserGuild gs gid = find (\<lambda>g. guild_id g = gid) gs"

definition guildPage ::
  "string \<Rightarrow> string \<Rightarrow> string \<Rightarrow> string \<Rightarrow> string option \<Rightarrow> env \<Rightarrow> request \<Rightarrow> outcome" where
  "guildPage view page label failure owner e req =
     (case userGuilds req of
        Inl error \<Rightarrow>
          \<lparr>response = Send 500 failure, trace = [ConsoleError label (ErrorObject error)]\<rparr>
      | Inr ugs \<Rightarrow>
          (case findUserGuild ugs (guildId req) of
             None \<Rightarrow> \<lparr>response = Send 403 ''Access denied'', trace = []\<rparr>
           | Some userGuild \<Rightarrow>
               (case callBotAPI e (''/api/guilds/'' @ guildId req @ ''/info'') ''GET'' None of
                  (Inl error, tr) \<Rightarrow>
                    \<lparr>response = Send 500 failure,
                     trace = tr @ [ConsoleError label (ErrorObject error)]\<rparr>
                | (Inr guildData, tr) \<Rightarrow>
                    \<lparr>response = Render 200 view
                       \<lparr>l_user = user req, l_guilds = None, l_guild = Some guildData,
                        l_botConfig = BOT_CONFIG e, l_page = Some page, l_ownerID = owner\<rparr>,
                     trace = tr\<rparr>)))"

definition dashboard_guild :: "env \<Rightarrow> request \<Rightarrow> outcome" where
  "dashboard_guild e req =
     guildPage ''dashboard'' ''overview'' ''Guild dashboard error:''
       ''Error loading guild dashboard'' None e req"

definition dashboard_aichat :: "env \<Rightarrow> request \<Rightarrow> outcome" where
  "dashboard_aichat e req =
     guildPage ''aichat'' ''aichat'' ''AI Chat page error:''
       ''Error loading AI Chat page'' (BOT_OWNER_ID e) e req"

definition dashboard_suggestions :: "env \<Rightarrow> request \<Rightarrow> outcome" where
  "dashboard_suggestions e req =
     guildPage ''suggestions'' ''suggestions'' ''Suggestions page error:''
       ''Error loading Suggestions page'' None e req"

section \<open>API proxy endpoints\<close>

text \<open>
  Every proxy handler is \<open>try { res.json(await callBotAPI(...)) } catch { res.status(500).json({error: ...}) }\<close>;
  the handlers differ in the endpoint, the method, the data and the failure message.
\<close>

definition proxy :: "env \<Rightarrow> string \<Rightarrow> string \<Rightarrow> json option \<Rightarrow> string \<Rightarrow> outcome" where
  "proxy e endpoint method data failure =
     (case callBotAPI e endpoint method data of
        (Inr d, tr) \<Rightarrow> \<lparr>response = SendJson 200 d, trace = tr\<rparr>
      | (Inl error, tr) \<Rightarrow>
          \<lparr>response = SendJson 500 (JObject [(''error'', JString failure)]), trace = tr\<rparr>)"

datatype route =
    Landing
  | AuthLogin
  | AuthCallback
  | AuthLogout
  | Dashboard
  | DashboardGuild
  | DashboardAichat
  | DashboardSuggestions
  | ApiGuildChannels
  | ApiAichatConfig
  | ApiAichatSave
  | ApiAichatResetMemory
  | ApiAnalytics
  | ApiSuggestionsConfig
  | ApiSuggestionsStats
  | ApiSuggestionsSetup
  | ApiSuggestionsToggle
  | Privacy
  | Terms
  | Unmatched

text \<open>The upstream endpoint, method, data and failure message of each proxy route.\<close>

fun proxyEndpoint :: "route \<Rightarrow> request \<Rightarrow> string" where
  "proxyEndpoint ApiGuildChannels req = ''/api/guilds/'' @ guildId req @ ''/channels''"
| "proxyEndpoint ApiAichatConfig req = ''/api/aichat/config/'' @ guildId req"
| "proxyEndpoint ApiAichatSave req = ''/api/aichat/save''"
| "proxyEndpoint ApiAichatResetMemory req = ''/api/aichat/reset-memory''"
| "proxyEndpoint ApiAnalytics req = ''/api/analytics''"
| "proxyEndpoint ApiSuggestionsConfig req = ''/api/suggestions/config/'' @ guildId req"
| "proxyEndpoint ApiSuggestionsStats req = ''/api/suggestions/stats/'' @ guildId req"
| "proxyEndpoint ApiSuggestionsSetup req = ''/api/suggestions/setup''"
| "proxyEndpoint ApiSuggestionsToggle req = ''/api/suggestions/toggle''"
| "proxyEndpoint r req = []"

fun proxyIsPost :: "route \<Rightarrow> bool" where
  "proxyIsPost ApiAichatSave = True"
| "proxyIsPost ApiAichatResetMemory = True"
| "proxyIsPost ApiSuggestionsSetup = True"
| "proxyIsPost ApiSuggestionsToggle = True"
| "proxyIsPost r = False"

fun proxyFailure :: "route \<Rightarrow> string" where
  "proxyFailure ApiGuildChannels = ''Failed to fetch channels''"
| "proxyFailure ApiAichatConfig = ''Failed to fetch config''"
| "proxyFailure ApiAichatSave = ''Failed to save config''"
| "proxyFailure ApiAichatResetMemory = ''Failed to reset memory''"
| "proxyFailure ApiAnalytics = ''Failed to fetch analytics''"
| "proxyFailure ApiSuggestionsConfig = ''Failed to fetch config''"
| "proxyFailure ApiSuggestionsStats = ''Failed to fetch stats''"
| "proxyFailure ApiSuggestionsSetup = ''Failed to setup suggestions''"
| "proxyFailure ApiSuggestionsToggle = ''Failed to toggle suggestions''"
| "proxyFailure r = []"

definition apiProxy :: "route \<Rightarrow> env \<Rightarrow> request \<Rightarrow> outcome" where
  "apiProxy r e req =
     (if proxyIsPost r then proxy e (proxyEndpoint r req) ''POST'' (body req) (proxyFailure r)
      else proxy e (proxyEndpoint r req) ''GET'' None (proxyFailure r))"

section \<open>The application\<close>

definition staticLocals :: "env \<Rightarrow> identity option \<Rightarrow> locals" where
  "staticLocals e u =
     \<lparr>l_user = u, l_guilds = None, l_guild = None, l_botConfig = BOT_CONFIG e,
      l_page = None, l_ownerID = None\<rparr>"

definition landing :: "env \<Rightarrow> request \<Rightarrow> outcome" where
  "landing e req =
     (if req_isAuthenticated req then \<lparr>response = Redirect ''/dashboard'', trace = []\<rparr>
      else \<lparr>response = Render 200 ''login'' (staticLocals e None), trace = []\<rparr>)"

subsection \<open>The session\<close>

text \<open>
  The session of one client holds the identity or nothing. \<open>passport.session()\<close> copies
  it to \<open>req.user\<close> at the start of each request. Three routes change it: the OAuth
  callback stores the profile on success; the error handler destroys the session on a
  TokenError or InternalOAuthError; \<open>req.logout\<close> removes the user and then runs its
  callback, which logs the error it is given, if any, and redirects.
\<close>

type_synonym session = "identity option"

definition errorHandler :: "js_error \<Rightarrow> session \<Rightarrow> session \<times> outcome" where
  "errorHandler err s =
     (if err_name err = ''TokenError'' \<or> err_name err = ''InternalOAuthError''
      then (None, \<lparr>response = Redirect ''/auth/login'',
                   trace = [ConsoleError ''Dashboard Error:'' (ErrorObject err)]\<rparr>)
      else (s, \<lparr>response = Send 500 ''Internal Server Error'',
                trace = [ConsoleError ''Dashboard Error:'' (ErrorObject err)]\<rparr>))"

definition auth_callback :: "env \<Rightarrow> session \<Rightarrow> session \<times> outcome" where
  "auth_callback e s =
     (case oauth e of
        OAuthSuccess profile \<Rightarrow> (Some profile, \<lparr>response = Redirect ''/dashboard'', trace = []\<rparr>)
      | OAuthFailure \<Rightarrow> (s, \<lparr>response = Redirect ''/'', trace = []\<rparr>)
      | OAuthError err \<Rightarrow> errorHandler err s)"

definition auth_logout :: "env \<Rightarrow> session \<Rightarrow> session \<times> outcome" where
  "auth_logout e s =
     (None,
      \<lparr>response = Redirect ''/'',
       trace = (case logout_error e of
                  None \<Rightarrow> []
                | Some err \<Rightarrow> [ConsoleError ''Logout error:'' (ErrorObject err)])\<rparr>)"

subsection \<open>Routing\<close>

text \<open>
  One request: the route that matched and the request, whose \<open>user\<close> is the content of
  the client's session. The result is the session afterwards and what the handler did.
  The routes are in the order in which server.js registers them; the last is the 404
  handler. Matching a path to a route is Express's, and the body parsers, the static
  files and the CORS headers that precede the routes are not part of the model.
\<close>

fun serve :: "env \<Rightarrow> route \<Rightarrow> request \<Rightarrow> session \<times> outcome" where
  "serve e Landing req = (user req, landing e req)"
| "serve e AuthLogin req = (user req, \<lparr>response = RedirectToProvider, trace = []\<rparr>)"
| "serve e AuthCallback req = auth_callback e (user req)"
| "serve e AuthLogout req = auth_logout e (user req)"
| "serve e Dashboard req = (user req, isAuthenticated req (dashboard e req))"
| "serve e DashboardGuild req = (user req, isAuthenticated req (dashboard_guild e req))"
| "serve e DashboardAichat req = (user req, isAuthenticated req (dashboard_aichat e req))"
| "serve e DashboardSuggestions req = (user req, isAuthenticated req (dashboard_suggestions e req))"
| "serve e ApiGuildChannels req = (user req, isAuthenticated req (apiProxy ApiGuildChannels e req))"
| "serve e ApiAichatConfig req = (user req, isAuthenticated req (apiProxy ApiAichatConfig e req))"
| "serve e ApiAichatSave req = (user req, isAuthenticated req (apiProxy ApiAichatSave e req))"
| "serve e ApiAichatResetMemory req = (user req, isAuthenticated req (apiProxy ApiAichatResetMemory e req))"
| "serve e ApiAnalytics req = (user req, isAuthenticated req (apiProxy ApiAnalytics e req))"
| "serve e ApiSuggestionsConfig req = (user req, isAuthenticated req (apiProxy ApiSuggestionsConfig e req))"
| "serve e ApiSuggestionsStats req = (user req, isAuthenticated req (apiProxy ApiSuggestionsStats e req))"
| "serve e ApiSuggestionsSetup req = (user req, isAuthenticated req (apiProxy ApiSuggestionsSetup e req))"
| "serve e ApiSuggestionsToggle req = (user req, isAuthenticated req (apiProxy ApiSuggestionsToggle e req))"
| "serve e Privacy req =
     (user req, \<lparr>response = Render 200 ''pt/pp'' (staticLocals e (user req)), trace = []\<rparr>)"
| "serve e Terms req =
     (user req, \<lparr>response = Render 200 ''pt/tos'' (staticLocals e (user req)), trace = []\<rparr>)"
| "serve e Unmatched req =
     (user req, \<lparr>response = Render 404 ''404'' (staticLocals e (user req)), trace = []\<rparr>)"

text \<open>What the client receives, and the effects, for one request.\<close>

definition app :: "env \<Rightarrow> route \<Rightarrow> request \<Rightarrow> outcome" where
  "app e r req = snd (serve e r req)"

text \<open>
  The session after a sequence of requests of one client, each with its own environment,
  parameter and body.
\<close>

fun sessionAfter :: "session \<Rightarrow> (env \<times> route \<times> string \<times> json option) list \<Rightarrow> session" where
  "sessionAfter s [] = s"
| "sessionAfter s ((e, r, gid, b) # rest) =
     sessionAfter (fst (serve e r \<lparr>user = s, guildId = gid, body = b\<rparr>)) rest"

text \<open>The upstream calls among the effects of a handler.\<close>

fun upstreamCalls :: "event list \<Rightarrow> axios_config list" where
  "upstreamCalls [] = []"
| "upstreamCalls (AxiosCall c # evs) = c # upstreamCalls evs"
| "upstreamCalls (ConsoleError l a # evs) = upstreamCalls evs"

text \<open>The routes behind the auth gate: every /dashboard page and every /api endpoint.\<close>

fun protected :: "route \<Rightarrow> bool" where
  "protected Landing = False"
| "protected AuthLogin = False"
| "protected AuthCallback = False"
| "protected AuthLogout = False"
| "protected Privacy = False"
| "protected Terms = False"
| "protected Unmatched = False"
| "protected r = True"

fun isProxyRoute :: "route \<Rightarrow> bool" where
  "isProxyRoute ApiGuildChannels = True"
| "isProxyRoute ApiAichatConfig = True"
| "isProxyRoute ApiAichatSave = True"
| "isProxyRoute ApiAichatResetMemory = True"
| "isProxyRoute ApiAnalytics = True"
| "isProxyRoute ApiSuggestionsConfig = True"
| "isProxyRoute ApiSuggestionsStats = True"
| "isProxyRoute ApiSuggestionsSetup = True"
| "isProxyRoute ApiSuggestionsToggle = True"
| "isProxyRoute r = False"

section \<open>What the specification calls things\<close>

text \<open>
  Following the specification's words: a permission bitmask has the "manage server" bit
  when the binary digit of weight \<open>0x20 = 2 ^ 5\<close> of its integer value is 1. The value is
  an unbounded integer; \<open>div\<close> rounds down, which is two's complement for a negative one.
\<close>

definition manageBitSet :: "guild \<Rightarrow> bool" where
  "manageBitSet g = (case BigInt (permissions g) of Inl err \<Rightarrow> False | Inr p \<Rightarrow> odd (p div 32))"

text \<open>The decimal numeral of a natural number, the usual serialisation of a bitmask.\<close>

fun decimal :: "nat \<Rightarrow> string" where
  "decimal n =
     (if n < 10 then [char_of (48 + n)]
      else decimal (n div 10) @ [char_of (48 + n mod 10)])"

declare decimal.simps [simp del]

text \<open>The guild-scoped pages: /dashboard/:guildId and its aichat and suggestions sub-pages.\<close>

fun isGuildPage :: "route \<Rightarrow> bool" where
  "isGuildPage DashboardGuild = True"
| "isGuildPage DashboardAichat = True"
| "isGuildPage DashboardSuggestions = True"
| "isGuildPage r = False"

text \<open>
  Following the specification's words: \<open>authorizeGuildAccess(identity, guildId)\<close> allows
  if and only if \<open>guildId\<close> appears anywhere in \<open>identity.guildMemberships\<close>.
\<close>

definition authorizeGuildAccess :: "identity \<Rightarrow> string \<Rightarrow> bool" where
  "authorizeGuildAccess u gid = (gid \<in> guild_id ` set (guildsOrEmpty u))"

text \<open>
  A number literal after \<open>JSON.parse\<close> and \<open>JSON.stringify\<close>: the shortest decimal of
  its nearest double, or \<open>null\<close> when it is beyond the double range.
\<close>

definition numberRoundTrip :: "rat \<Rightarrow> wire" where
  "numberRoundTrip q =
     (case toDouble q of
        Finite x \<Rightarrow> WNumber (shortestDecimal x)
      | PosInfinity \<Rightarrow> WNull
      | NegInfinity \<Rightarrow> WNull)"

text \<open>Every number of a JSON value is written back as it was read.\<close>

fun numbersSurvive :: "wire \<Rightarrow> bool" where
  "numbersSurvive (WNumber q) = (numberRoundTrip q = WNumber q)"
| "numbersSurvive (WArray ws) = list_all numbersSurvive ws"
| "numbersSurvive (WObject kvs) = list_all (\<lambda>(k, w). numbersSurvive w) kvs"
| "numbersSurvive w = True"

text \<open>The \<open>axios\<close> argument that a proxy route builds.\<close>

definition proxyConfig :: "route \<Rightarrow> env \<Rightarrow> request \<Rightarrow> axios_config" where
  "proxyConfig r e req =
     axiosConfig e (proxyEndpoint r req) (if proxyIsPost r then ''POST'' else ''GET'')
       (if proxyIsPost r then body req else None)"

section \<open>The scenario of the specification\<close>

text \<open>
  A user with the memberships A (bitmask 0x20) and B (bitmask 0x0) of the specification's
  scenario, and a third, L, whose bitmask 0x00000000000000000020000000000028 is
  \<open>2 ^ 53 + 40\<close>; the bot is present in A.
\<close>

definition guildA :: guild where
  "guildA = \<lparr>guild_id = ''A'', guild_name = ''Alpha'', guild_icon = Some ''a1'',
              permissions = PermString ''0x20''\<rparr>"

definition guildB :: guild where
  "guildB = \<lparr>guild_id = ''B'', guild_name = ''Beta'', guild_icon = None,
              permissions = PermString ''0x0''\<rparr>"

definition guildL :: guild where
  "guildL = \<lparr>guild_id = ''L'', guild_name = ''Large'', guild_icon = None,
              permissions = PermString ''0x00000000000000000020000000000028''\<rparr>"

definition scenarioGuilds :: "guild list" where
  "scenarioGuilds = [guildA, guildB, guildL]"

definition scenarioUser :: identity where
  "scenarioUser = \<lparr>user_id = ''u1'', username = ''user'', guilds = Some scenarioGuilds\<rparr>"

definition scenarioRequest :: "string \<Rightarrow> request" where
  "scenarioRequest gid = \<lparr>user = Some scenarioUser, guildId = gid, body = Some (JObject [])\<rparr>"

definition anonymousRequest :: "string \<Rightarrow> request" where
  "anonymousRequest gid = \<lparr>user = None, guildId = gid, body = Some (JObject [])\<rparr>"

definition scenarioConfig :: bot_config where
  "scenarioConfig =
     \<lparr>cfg_name = ''ZarKos Ultimate'', cfg_logoUrl = ''https://i.imgur.com/AfFp7pu.png'',
      cfg_themeColor = ''#FFC107'', cfg_supportUrl = ''https://discord.gg/mnbQFftqby'',
      cfg_inviteUrl = None, cfg_privacyUrl = ''/privacy'', cfg_termsUrl = ''/terms'',
      cfg_clientId = None\<rparr>"

text \<open>An upstream that answers every call, and one that refuses every call.\<close>

definition upstreamUp :: "axios_config \<Rightarrow> js_error + body" where
  "upstreamUp c =
     (if ax_url c = ''http://bot/api/bot/guilds''
      then Inr (JsonText (WObject [(''guilds'', WArray [WString ''A''])]))
      else Inr (JsonText (WObject [(''ok'', WBool True)])))"

definition upstreamDown :: "axios_config \<Rightarrow> js_error + body" where
  "upstreamDown c = Inl (JsError ''AxiosError'' ''connect ECONNREFUSED'')"

text \<open>
  An upstream whose bodies carry numbers: one with small numbers, and one with a number
  beyond the double range (the literal 1e400) and an integer of 21 digits.
\<close>

definition smallBody :: wire where
  "smallBody = WObject [(''ok'', WBool True), (''count'', WNumber 7), (''ratio'', WNumber (1 / 10))]"

definition upstreamSmall :: "axios_config \<Rightarrow> js_error + body" where
  "upstreamSmall c = Inr (JsonText smallBody)"

definition largeBody :: wire where
  "largeBody = WObject [(''total'', WNumber (10 ^ 400)), (''id'', WNumber 123456789012345678901)]"

definition upstreamLarge :: "axios_config \<Rightarrow> js_error + body" where
  "upstreamLarge c = Inr (JsonText largeBody)"

definition scenarioEnv :: "(axios_config \<Rightarrow> js_error + body) \<Rightarrow> env" where
  "scenarioEnv up =
     \<lparr>BOT_API = \<lparr>api_url = ''http://bot'', api_key = ''key''\<rparr>,
      BOT_CONFIG = scenarioConfig,
      BOT_OWNER_ID = None,
      upstream = up,
      oauth = OAuthFailure,
      logout_error = None\<rparr>"

text \<open>An environment in which the OAuth exchange succeeds with the scenario's user.\<close>

definition scenarioLoginEnv :: env where
  "scenarioLoginEnv = (scenarioEnv upstreamUp)\<lparr>oauth := OAuthSuccess scenarioUser\<rparr>"

section \<open>Properties\<close>

subsection \<open>The permission bit\<close>

lemma and_exp_cases: "(p::int) AND 2 ^ n = (if bit p n then 2 ^ n else 0)"
  by (rule bit_eqI) (auto simp: bit_simps)

lemma and_0x20_iff: "((p::int) AND 0x20) = 0x20 \<longleftrightarrow> odd (p div 32)"
  using and_exp_cases [of p 5] by (simp add: bit_iff_odd)

lemma hasManageServer_iff: "hasManageServer g = Inr True \<longleftrightarrow> manageBitSet g"
  by (simp add: hasManageServer_def manageBitSet_def and_0x20_iff split: sum.splits)

subsection \<open>Decimal numerals convert exactly, whatever their magnitude\<close>

lemma parseDigits_append:
  "parseDigits r (xs @ ys) acc =
     (case parseDigits r xs acc of None \<Rightarrow> None | Some a \<Rightarrow> parseDigits r ys a)"
  by (induction xs arbitrary: acc) (auto split: option.splits)

lemma digitValue_decimal_digit: "d < 10 \<Longrightarrow> digitValue (char_of (48 + d)) = Some d"
  by (simp add: digitValue_def Let_def)

lemma decimal_not_Nil: "decimal n \<noteq> []"
  by (subst decimal.simps) simp

lemma parseDigits_decimal: "parseDigits 10 (decimal n) 0 = Some n"
proof (induction n rule: decimal.induct)
  case (1 n)
  show ?case
  proof (cases "n < 10")
    case True
    then show ?thesis
      by (subst decimal.simps) (simp add: digitValue_decimal_digit)
  next
    case False
    with 1 have "parseDigits 10 (decimal (n div 10)) 0 = Some (n div 10)" by simp
    with False show ?thesis
      by (subst decimal.simps) (simp add: parseDigits_append digitValue_decimal_digit)
  qed
qed

lemma decimal_digits:
  "\<forall>c\<in>set (decimal n). 48 \<le> (of_char c :: nat) \<and> (of_char c :: nat) \<le> 57"
proof (induction n rule: decimal.induct)
  case (1 n)
  show ?case
  proof (cases "n < 10")
    case True
    then show ?thesis by (subst decimal.simps) simp
  next
    case False
    with 1 have "\<forall>c\<in>set (decimal (n div 10)). 48 \<le> (of_char c :: nat) \<and> (of_char c :: nat) \<le> 57"
      by simp
    moreover have "(48 + n mod 10) mod 256 = 48 + n mod 10" by simp
    ultimately show ?thesis using False
      by (subst decimal.simps) auto
  qed
qed

lemma dropWhile_none: "\<forall>x\<in>set xs. \<not> P x \<Longrightarrow> dropWhile P xs = xs"
  by (cases xs) simp_all

lemma digit_not_space:
  "48 \<le> (of_char c :: nat) \<and> (of_char c :: nat) \<le> 57 \<Longrightarrow> \<not> isStrWhiteSpaceChar c"
  by (auto simp: isStrWhiteSpaceChar_def)

lemma trimString_decimal: "trimString (decimal n) = decimal n"
  using decimal_digits [of n] by (simp add: trimString_def dropWhile_none digit_not_space)

lemma digit_not_marker:
  "48 \<le> (of_char c :: nat) \<and> (of_char c :: nat) \<le> 57 \<Longrightarrow>
   c \<noteq> CHR ''x'' \<and> c \<noteq> CHR ''X'' \<and> c \<noteq> CHR ''o'' \<and> c \<noteq> CHR ''O'' \<and>
   c \<noteq> CHR ''b'' \<and> c \<noteq> CHR ''B'' \<and> c \<noteq> CHR ''+'' \<and> c \<noteq> CHR ''-''"
  by auto

lemma StringToBigInt_decimal: "StringToBigInt (decimal n) = Some (int n)"
proof (cases "decimal n")
  case Nil
  then show ?thesis by (simp add: decimal_not_Nil)
next
  case (Cons c cs)
  have pd: "parseDigits 10 (c # cs) 0 = Some n"
    using parseDigits_decimal [of n] Cons by simp
  have dg: "\<forall>x\<in>set (c # cs). 48 \<le> (of_char x :: nat) \<and> (of_char x :: nat) \<le> 57"
    using decimal_digits [of n] Cons by simp
  have tr: "trimString (decimal n) = c # cs"
    using trimString_decimal [of n] Cons by simp
  show ?thesis
  proof (cases cs)
    case Nil
    with pd show ?thesis
      unfolding StringToBigInt_def tr by (simp add: parseInteger_def)
  next
    case (Cons d ds)
    with dg have "d \<noteq> CHR ''x'' \<and> d \<noteq> CHR ''X'' \<and> d \<noteq> CHR ''o'' \<and> d \<noteq> CHR ''O'' \<and>
        d \<noteq> CHR ''b'' \<and> d \<noteq> CHR ''B''"
      using digit_not_marker [of d] by simp
    moreover from dg have "c \<noteq> CHR ''+'' \<and> c \<noteq> CHR ''-''"
      using digit_not_marker [of c] by simp
    ultimately show ?thesis using Cons pd
      unfolding StringToBigInt_def tr by (simp add: parseInteger_def)
  qed
qed

lemma manageBitSet_decimal:
  "permissions g = PermString (decimal n) \<Longrightarrow> manageBitSet g \<longleftrightarrow> odd (n div 32)"
proof -
  assume "permissions g = PermString (decimal n)"
  then have "BigInt (permissions g) = Inr (int n)"
    by (simp add: BigInt_def StringToBigInt_decimal)
  moreover have "int n div 32 = int (n div 32)" by (simp add: zdiv_int)
  ultimately show ?thesis by (simp add: manageBitSet_def)
qed

lemma manageBitSet_number:
  "permissions g = PermNumber k \<Longrightarrow> manageBitSet g \<longleftrightarrow> odd (k div 32)"
  by (simp add: manageBitSet_def BigInt_def)

subsection \<open>Arrays\<close>

lemma Array_filter_Inr:
  "Array_filter p xs = Inr ys \<Longrightarrow>
   ys = filter (\<lambda>x. p x = Inr True) xs \<and> (\<forall>x\<in>set xs. \<exists>b. p x = Inr b)"
  by (induction xs arbitrary: ys) (auto split: sum.splits if_splits)

lemma Array_map_Inr:
  "Array_map f xs = Inr ys \<Longrightarrow> list_all2 (\<lambda>x y. f x = Inr y) xs ys"
  by (induction xs arbitrary: ys) (auto split: sum.splits)

subsection \<open>The selector\<close>

lemma managedGuilds_Inr:
  assumes "managedGuilds gs = Inr ms"
  shows "ms = filter manageBitSet gs" and "\<forall>g\<in>set gs. \<exists>p. BigInt (permissions g) = Inr p"
proof -
  from assms have *: "ms = filter (\<lambda>x. hasManageServer x = Inr True) gs"
    and **: "\<forall>x\<in>set gs. \<exists>b. hasManageServer x = Inr b"
    using Array_filter_Inr [of hasManageServer gs ms] by (simp_all add: managedGuilds_def)
  from * show "ms = filter manageBitSet gs" by (simp add: hasManageServer_iff)
  show "\<forall>g\<in>set gs. \<exists>p. BigInt (permissions g) = Inr p"
  proof
    fix g assume "g \<in> set gs"
    with ** obtain b where "hasManageServer g = Inr b" by blast
    then show "\<exists>p. BigInt (permissions g) = Inr p"
      by (cases "BigInt (permissions g)") (auto simp: hasManageServer_def)
  qed
qed

lemma guildSummary_id: "guildSummary bg g = Inr s \<Longrightarrow> gs_id s = guild_id g"
  by (auto simp: guildSummary_def split: sum.splits)

lemma summaries_ids:
  assumes "Array_map (guildSummary bg) ms = Inr gs"
  shows "map gs_id gs = map guild_id ms"
proof -
  from assms have "list_all2 (\<lambda>x y. guildSummary bg x = Inr y) ms gs"
    by (rule Array_map_Inr)
  then show ?thesis
    by (induction rule: list_all2_induct) (simp_all add: guildSummary_id)
qed

lemma dashboard_Render:
  assumes "response (dashboard e req) = Render st view l"
  shows "\<exists>u gs. user req = Some u \<and> l_guilds l = Some gs \<and> l_user l = Some u
      \<and> st = 200 \<and> view = ''selector''
      \<and> managedGuilds (guildsOrEmpty u) = Inr (filter manageBitSet (guildsOrEmpty u))
      \<and> Array_map (guildSummary (fst (fetchBotGuilds e))) (filter manageBitSet (guildsOrEmpty u)) = Inr gs
      \<and> trace (dashboard e req) = snd (fetchBotGuilds e)"
  using assms
  by (auto simp: dashboard_def userGuilds_def dashboardError_def dest: managedGuilds_Inr(1)
      split: sum.splits option.splits prod.splits)

lemma scenario_BigInt:
  "StringToBigInt ''0x00000000000000000020000000000028'' = Some 9007199254741032"
  "StringToBigInt ''0x20'' = Some 32"
  "StringToBigInt ''0x0'' = Some 0"
  by (simp_all add: StringToBigInt_def trimString_def isStrWhiteSpaceChar_def parseInteger_def digitValue_def)

lemma scenario_managedGuilds: "managedGuilds scenarioGuilds = Inr [guildA, guildL]"
  by (simp add: managedGuilds_def scenarioGuilds_def guildA_def guildB_def guildL_def
      hasManageServer_def BigInt_def scenario_BigInt)

lemma scenario_manageBitSet: "filter manageBitSet scenarioGuilds = [guildA, guildL]"
  using managedGuilds_Inr(1) [OF scenario_managedGuilds] by simp

lemma filter_ids_distinct:
  assumes "distinct (map f xs)" and "x \<in> set xs"
  shows "f x \<in> set (map f (filter P xs)) \<longleftrightarrow> P x"
proof
  assume "f x \<in> set (map f (filter P xs))"
  then obtain y where y: "y \<in> set xs" "P y" "f y = f x" by auto
  from assms(1) have "inj_on f (set xs)" by (simp add: distinct_map)
  with y assms(2) have "y = x" by (auto dest: inj_onD)
  with y show "P x" by simp
next
  assume "P x"
  with assms(2) show "f x \<in> set (map f (filter P xs))" by auto
qed

subsection \<open>Upstream calls and guild pages\<close>

lemma findUserGuild_None: "findUserGuild gs gid = None \<longleftrightarrow> gid \<notin> guild_id ` set gs"
  by (auto simp: findUserGuild_def find_None_iff)

lemma upstreamCalls_append: "upstreamCalls (xs @ ys) = upstreamCalls xs @ upstreamCalls ys"
  by (induction xs rule: upstreamCalls.induct) simp_all

lemma callBotAPI_Inr:
  "axios e (axiosConfig e endpoint method data) = Inr d \<Longrightarrow>
   callBotAPI e endpoint method data = (Inr d, [AxiosCall (axiosConfig e endpoint method data)])"
  by (simp add: callBotAPI_def)

lemma callBotAPI_Inl:
  "axios e (axiosConfig e endpoint method data) = Inl err \<Longrightarrow>
   callBotAPI e endpoint method data =
     (Inl err, [AxiosCall (axiosConfig e endpoint method data),
                ConsoleError (''API Error ['' @ endpoint @ '']:'') (Message (err_message err))])"
  by (simp add: callBotAPI_def)

lemma guildPage_member:
  assumes "user req = Some u" and "authorizeGuildAccess u (guildId req)"
  shows "\<exists>c. upstreamCalls (trace (guildPage view page label failure owner e req)) = [c]
       \<and> ax_url c = api_url (BOT_API e) @ ''/api/guilds/'' @ guildId req @ ''/info''
       \<and> (\<forall>d. axios e c = Inr d \<longrightarrow>
             response (guildPage view page label failure owner e req) =
               Render 200 view \<lparr>l_user = Some u, l_guilds = None, l_guild = Some d,
                 l_botConfig = BOT_CONFIG e, l_page = Some page, l_ownerID = owner\<rparr>)
       \<and> (\<forall>err. axios e c = Inl err \<longrightarrow>
             response (guildPage view page label failure owner e req) = Send 500 failure)"
proof -
  let ?c = "axiosConfig e (''/api/guilds/'' @ guildId req @ ''/info'') ''GET'' None"
  from assms obtain g where g: "findUserGuild (guildsOrEmpty u) (guildId req) = Some g"
    using findUserGuild_None [of "guildsOrEmpty u" "guildId req"]
    by (auto simp: authorizeGuildAccess_def)
  have url: "ax_url ?c = api_url (BOT_API e) @ ''/api/guilds/'' @ guildId req @ ''/info''"
    by (simp add: axiosConfig_def)
  show ?thesis
  proof (cases "axios e ?c")
    case (Inl err)
    with g assms(1) url show ?thesis
      by (intro exI [of _ ?c]) (simp add: guildPage_def userGuilds_def callBotAPI_Inl)
  next
    case (Inr d)
    with g assms(1) url show ?thesis
      by (intro exI [of _ ?c]) (simp add: guildPage_def userGuilds_def callBotAPI_Inr)
  qed
qed

lemma guildPage_nonmember:
  assumes "user req = Some u" and "\<not> authorizeGuildAccess u (guildId req)"
  shows "guildPage view page label failure owner e req = \<lparr>response = Send 403 ''Access denied'', trace = []\<rparr>"
  using assms findUserGuild_None [of "guildsOrEmpty u" "guildId req"]
  by (simp add: guildPage_def userGuilds_def authorizeGuildAccess_def)

lemma app_guildPage:
  assumes "isGuildPage r" and "user req = Some u"
  shows "app e r req = guildPage ''dashboard'' ''overview'' ''Guild dashboard error:''
            ''Error loading guild dashboard'' None e req
       \<or> app e r req = guildPage ''aichat'' ''aichat'' ''AI Chat page error:''
            ''Error loading AI Chat page'' (BOT_OWNER_ID e) e req
       \<or> app e r req = guildPage ''suggestions'' ''suggestions'' ''Suggestions page error:''
            ''Error loading Suggestions page'' None e req"
  using assms
  by (cases r) (simp_all add: app_def isAuthenticated_def req_isAuthenticated_def
      dashboard_guild_def dashboard_aichat_def dashboard_suggestions_def)

lemma guildPage_status_403:
  assumes "user req = Some u"
  shows "status (response (guildPage view page label failure owner e req)) = 403
         \<longleftrightarrow> \<not> authorizeGuildAccess u (guildId req)"
proof (cases "authorizeGuildAccess u (guildId req)")
  case True
  from guildPage_member [OF assms True, of view page label failure owner e]
  obtain c where
    ok: "\<forall>d. axios e c = Inr d \<longrightarrow> (\<exists>l. response (guildPage view page label failure owner e req) = Render 200 view l)"
    and ko: "\<forall>err. axios e c = Inl err \<longrightarrow> response (guildPage view page label failure owner e req) = Send 500 failure"
    by auto
  show ?thesis
  proof (cases "axios e c")
    case (Inl err)
    with ko True show ?thesis by simp
  next
    case (Inr d)
    with ok True show ?thesis by auto
  qed
next
  case False
  with guildPage_nonmember [OF assms False] show ?thesis by simp
qed

lemma selector_ids:
  assumes "response (app e Dashboard req) = Render st view l"
  shows "\<exists>u gs. user req = Some u \<and> l_guilds l = Some gs
      \<and> map gs_id gs = map guild_id (filter manageBitSet (guildsOrEmpty u))
      \<and> (\<forall>g\<in>set (guildsOrEmpty u). \<exists>p. BigInt (permissions g) = Inr p)"
proof -
  from assms have auth: "req_isAuthenticated req"
    by (auto simp: app_def isAuthenticated_def split: if_splits)
  with assms have "response (dashboard e req) = Render st view l"
    by (simp add: app_def isAuthenticated_def)
  from dashboard_Render [OF this] obtain u gs where
    u: "user req = Some u" and gs: "l_guilds l = Some gs"
    and mg: "managedGuilds (guildsOrEmpty u) = Inr (filter manageBitSet (guildsOrEmpty u))"
    and mp: "Array_map (guildSummary (fst (fetchBotGuilds e))) (filter manageBitSet (guildsOrEmpty u)) = Inr gs"
    by blast
  have ids: "map gs_id gs = map guild_id (filter manageBitSet (guildsOrEmpty u))"
    using mp by (rule summaries_ids)
  have conv: "\<forall>g\<in>set (guildsOrEmpty u). \<exists>p. BigInt (permissions g) = Inr p"
    using mg by (rule managedGuilds_Inr(2))
  from u gs ids conv show ?thesis by blast
qed

text \<open>
  C1. Whenever GET /dashboard renders the selector, the entries listed are, in order,
  exactly the memberships of the identity whose permission bitmask has the binary digit
  of weight 0x20 set, the bitmask being converted by \<open>BigInt\<close> to an unbounded integer
  (so every bitmask of the identity has converted). With distinct guild ids, a membership
  is listed if and only if its bit is set. The conversion is exact at any magnitude: for
  a bitmask given as the decimal numeral of \<open>n\<close>, or as a number of value \<open>n\<close>, the bit is
  set exactly when \<open>n div 32\<close> is odd. The scenario below lists the guild L, whose bitmask
  0x00000000000000000020000000000028 is \<open>2 ^ 53 + 40\<close>.
\<close>

theorem selector_lists_manage_bit_guilds:
  assumes "response (app e Dashboard req) = Render st view l"
  shows "\<exists>u gs. user req = Some u \<and> l_guilds l = Some gs
      \<and> map gs_id gs = map guild_id (filter manageBitSet (guildsOrEmpty u))
      \<and> (\<forall>g\<in>set (guildsOrEmpty u). \<exists>p. BigInt (permissions g) = Inr p)
      \<and> (distinct (map guild_id (guildsOrEmpty u)) \<longrightarrow>
           (\<forall>g\<in>set (guildsOrEmpty u). guild_id g \<in> gs_id ` set gs \<longleftrightarrow> manageBitSet g))
      \<and> (\<forall>g\<in>set (guildsOrEmpty u). \<forall>n.
             permissions g = PermString (decimal n) \<or> permissions g = PermNumber (int n) \<longrightarrow>
             (manageBitSet g \<longleftrightarrow> odd (n div 32)))"
proof -
  from selector_ids [OF assms] obtain u gs where
    u: "user req = Some u" and gs: "l_guilds l = Some gs"
    and ids: "map gs_id gs = map guild_id (filter manageBitSet (guildsOrEmpty u))"
    and conv: "\<forall>g\<in>set (guildsOrEmpty u). \<exists>p. BigInt (permissions g) = Inr p"
    by blast
  have pt: "guild_id g \<in> gs_id ` set gs \<longleftrightarrow> manageBitSet g"
    if "distinct (map guild_id (guildsOrEmpty u))" and "g \<in> set (guildsOrEmpty u)" for g
  proof -
    have "gs_id ` set gs = set (map guild_id (filter manageBitSet (guildsOrEmpty u)))"
      using ids by (metis set_map)
    then show ?thesis using filter_ids_distinct [OF that, of manageBitSet] by simp
  qed
  have exact: "manageBitSet g \<longleftrightarrow> odd (n div 32)"
    if "permissions g = PermString (decimal n) \<or> permissions g = PermNumber (int n)" for g n
  proof -
    have "int n div 32 = int (n div 32)" by (simp add: zdiv_int)
    with that manageBitSet_decimal [of g n] manageBitSet_number [of g "int n"]
    show ?thesis by auto
  qed
  from u gs ids conv pt exact show ?thesis by blast
qed

lemma scenario_fetchBotGuilds:
  "fetchBotGuilds (scenarioEnv upstreamUp) =
      (JArray [JString ''A''],
       [AxiosCall \<lparr>ax_method = ''GET'', ax_url = ''http://bot/api/bot/guilds'',
          ax_headers = [(''Authorization'', ''Bearer key''), (''Content-Type'', ''application/json'')],
          ax_data = None\<rparr>])"
  by (simp add: fetchBotGuilds_def callBotAPI_def axiosConfig_def axios_def scenarioEnv_def upstreamUp_def)

lemma scenario_summaries:
  "guildSummary (JArray [JString ''A'']) guildA =
     Inr \<lparr>gs_id = ''A'', gs_name = ''Alpha'',
          gs_icon = Some ''https://cdn.discordapp.com/icons/A/a1.png'', botInGuild = True\<rparr>"
  "guildSummary (JArray [JString ''A'']) guildL =
     Inr \<lparr>gs_id = ''L'', gs_name = ''Large'', gs_icon = None, botInGuild = False\<rparr>"
  by (simp_all add: guildSummary_def guildA_def guildL_def)

lemma scenario_selector:
  "response (app (scenarioEnv upstreamUp) Dashboard (scenarioRequest gid)) =
     Render 200 ''selector''
       \<lparr>l_user = Some scenarioUser,
        l_guilds = Some
          [\<lparr>gs_id = ''A'', gs_name = ''Alpha'',
            gs_icon = Some ''https://cdn.discordapp.com/icons/A/a1.png'', botInGuild = True\<rparr>,
           \<lparr>gs_id = ''L'', gs_name = ''Large'', gs_icon = None, botInGuild = False\<rparr>],
        l_guild = None, l_botConfig = scenarioConfig, l_page = Some ''selector'',
        l_ownerID = None\<rparr>"
  by (simp add: app_def isAuthenticated_def req_isAuthenticated_def dashboard_def userGuilds_def
        guildsOrEmpty_def scenarioRequest_def scenarioUser_def scenario_managedGuilds
        scenario_fetchBotGuilds scenario_summaries)
     (simp add: scenarioEnv_def)

theorem selector_lists_manage_bit_guilds_witness:
  "response (app (scenarioEnv upstreamUp) Dashboard (scenarioRequest [])) =
     Render 200 ''selector''
       \<lparr>l_user = Some scenarioUser,
        l_guilds = Some
          [\<lparr>gs_id = ''A'', gs_name = ''Alpha'',
            gs_icon = Some ''https://cdn.discordapp.com/icons/A/a1.png'', botInGuild = True\<rparr>,
           \<lparr>gs_id = ''L'', gs_name = ''Large'', gs_icon = None, botInGuild = False\<rparr>],
        l_guild = None, l_botConfig = scenarioConfig, l_page = Some ''selector'',
        l_ownerID = None\<rparr>
     \<and> distinct (map guild_id scenarioGuilds)
     \<and> set scenarioGuilds = {guildA, guildB, guildL}
     \<and> manageBitSet guildA \<and> \<not> manageBitSet guildB \<and> manageBitSet guildL
     \<and> BigInt (permissions guildL) = Inr (2 ^ 53 + 40)"
proof -
  have b: "BigInt (permissions guildL) = Inr (2 ^ 53 + 40)"
    by (simp add: BigInt_def guildL_def scenario_BigInt)
  have d: "distinct (map guild_id scenarioGuilds)" "set scenarioGuilds = {guildA, guildB, guildL}"
    by (simp_all add: scenarioGuilds_def guildA_def guildB_def guildL_def)
  have g: "guildsOrEmpty scenarioUser = scenarioGuilds"
    by (simp add: guildsOrEmpty_def scenarioUser_def)
  have i: "guild_id guildA = ''A''" "guild_id guildB = ''B''" "guild_id guildL = ''L''"
    by (simp_all add: guildA_def guildB_def guildL_def)
  from selector_lists_manage_bit_guilds [OF scenario_selector [of "[]"]] d g i b
    scenario_selector [of "[]"]
  show ?thesis by (simp add: scenarioRequest_def)
qed

subsection \<open>Guild pages\<close>

text \<open>
  C2. For an authenticated identity, each of the three guild-scoped pages answers 403
  exactly when \<open>guildId\<close> is not among the identity's memberships: membership alone
  decides, the permission bit is not consulted. For a member the handler makes one
  upstream call, for the guild's info, and renders the page with status 200 on the data
  that call returns (the failure page, status 500, when the call is rejected). So a
  member guild all of whose entries fail the 0x20 check is served although no selector
  rendered for the same identity lists it.
\<close>
theorem guild_pages_allow_exactly_members:
  assumes "isGuildPage r" and "user req = Some u"
  shows "(status (response (app e r req)) = 403 \<longleftrightarrow> \<not> authorizeGuildAccess u (guildId req))
     \<and> (authorizeGuildAccess u (guildId req) \<longrightarrow>
          (\<exists>c. upstreamCalls (trace (app e r req)) = [c]
             \<and> ax_url c = api_url (BOT_API e) @ ''/api/guilds/'' @ guildId req @ ''/info''
             \<and> (\<forall>d. axios e c = Inr d \<longrightarrow>
                   status (response (app e r req)) = 200
                   \<and> (\<exists>view l. response (app e r req) = Render 200 view l \<and> l_guild l = Some d))
             \<and> (\<forall>err. axios e c = Inl err \<longrightarrow> status (response (app e r req)) = 500)))
     \<and> (\<forall>st view l gs.
           (\<forall>g\<in>set (guildsOrEmpty u). guild_id g = guildId req \<longrightarrow> \<not> manageBitSet g)
           \<and> response (app e' Dashboard req) = Render st view l \<and> l_guilds l = Some gs
          \<longrightarrow> guildId req \<notin> gs_id ` set gs)"
proof (intro conjI)
  from app_guildPage [OF assms, of e]
  show "status (response (app e r req)) = 403 \<longleftrightarrow> \<not> authorizeGuildAccess u (guildId req)"
    by (auto simp: guildPage_status_403 [OF assms(2)])
next
  show "authorizeGuildAccess u (guildId req) \<longrightarrow>
          (\<exists>c. upstreamCalls (trace (app e r req)) = [c]
             \<and> ax_url c = api_url (BOT_API e) @ ''/api/guilds/'' @ guildId req @ ''/info''
             \<and> (\<forall>d. axios e c = Inr d \<longrightarrow>
                   status (response (app e r req)) = 200
                   \<and> (\<exists>view l. response (app e r req) = Render 200 view l \<and> l_guild l = Some d))
             \<and> (\<forall>err. axios e c = Inl err \<longrightarrow> status (response (app e r req)) = 500))"
  proof
    assume m: "authorizeGuildAccess u (guildId req)"
    have *: "\<exists>c. upstreamCalls (trace (guildPage view page label failure owner e req)) = [c]
             \<and> ax_url c = api_url (BOT_API e) @ ''/api/guilds/'' @ guildId req @ ''/info''
             \<and> (\<forall>d. axios e c = Inr d \<longrightarrow>
                   status (response (guildPage view page label failure owner e req)) = 200
                   \<and> (\<exists>v l. response (guildPage view page label failure owner e req) = Render 200 v l \<and> l_guild l = Some d))
             \<and> (\<forall>err. axios e c = Inl err \<longrightarrow> status (response (guildPage view page label failure owner e req)) = 500)"
      for view page label failure owner
    proof -
      from guildPage_member [OF assms(2) m, of view page label failure owner e]
      obtain c where c: "upstreamCalls (trace (guildPage view page label failure owner e req)) = [c]"
        "ax_url c = api_url (BOT_API e) @ ''/api/guilds/'' @ guildId req @ ''/info''"
        "\<forall>d. axios e c = Inr d \<longrightarrow>
             response (guildPage view page label failure owner e req) =
               Render 200 view \<lparr>l_user = Some u, l_guilds = None, l_guild = Some d,
                 l_botConfig = BOT_CONFIG e, l_page = Some page, l_ownerID = owner\<rparr>"
        "\<forall>err. axios e c = Inl err \<longrightarrow>
             response (guildPage view page label failure owner e req) = Send 500 failure"
        by blast
      show ?thesis
        by (rule exI [of _ c]) (use c in auto)
    qed
    from app_guildPage [OF assms, of e] show "\<exists>c. upstreamCalls (trace (app e r req)) = [c]
             \<and> ax_url c = api_url (BOT_API e) @ ''/api/guilds/'' @ guildId req @ ''/info''
             \<and> (\<forall>d. axios e c = Inr d \<longrightarrow>
                   status (response (app e r req)) = 200
                   \<and> (\<exists>view l. response (app e r req) = Render 200 view l \<and> l_guild l = Some d))
             \<and> (\<forall>err. axios e c = Inl err \<longrightarrow> status (response (app e r req)) = 500)"
      using * by (elim disjE) simp_all
  qed
next
  show "\<forall>st view l gs.
           (\<forall>g\<in>set (guildsOrEmpty u). guild_id g = guildId req \<longrightarrow> \<not> manageBitSet g)
           \<and> response (app e' Dashboard req) = Render st view l \<and> l_guilds l = Some gs
          \<longrightarrow> guildId req \<notin> gs_id ` set gs"
  proof (intro allI impI, elim conjE)
    fix st view l gs
    assume nb: "\<forall>g\<in>set (guildsOrEmpty u). guild_id g = guildId req \<longrightarrow> \<not> manageBitSet g"
      and r: "response (app e' Dashboard req) = Render st view l" and g: "l_guilds l = Some gs"
    from selector_ids [OF r] assms(2) g
    have "map gs_id gs = map guild_id (filter manageBitSet (guildsOrEmpty u))" by auto
    then have "gs_id ` set gs = guild_id ` set (filter manageBitSet (guildsOrEmpty u))"
      by (metis set_map)
    with nb show "guildId req \<notin> gs_id ` set gs" by auto
  qed
qed

text \<open>
  C3. For an authenticated identity and a \<open>guildId\<close> that is not among its memberships,
  a guild-scoped page (in particular /dashboard/:guildId) answers 403 with the fixed text
  "Access denied", makes no upstream call and logs nothing; the response is the same
  whatever the upstream would have answered.
\<close>
theorem non_member_gets_403_without_upstream_call:
  assumes "isGuildPage r" and "user req = Some u" and "\<not> authorizeGuildAccess u (guildId req)"
  shows "app e r req = \<lparr>response = Send 403 ''Access denied'', trace = []\<rparr>
       \<and> status (response (app e r req)) = 403
       \<and> upstreamCalls (trace (app e r req)) = []
       \<and> response (app e' r req) = response (app e r req)"
  using app_guildPage [OF assms(1,2), of e] app_guildPage [OF assms(1,2), of e']
  by (auto simp: guildPage_nonmember [OF assms(2,3)])


lemma scenario_facts:
  "user (scenarioRequest gid) = Some scenarioUser"
  "guildId (scenarioRequest gid) = gid"
  "guildsOrEmpty scenarioUser = [guildA, guildB, guildL]"
  "guild_id guildA = ''A''" "guild_id guildB = ''B''" "guild_id guildL = ''L''"
  "upstream (scenarioEnv up) = up"
  "BOT_API (scenarioEnv up) = \<lparr>api_url = ''http://bot'', api_key = ''key''\<rparr>"
  "user (anonymousRequest gid) = None"
  by (simp_all add: scenarioRequest_def scenarioUser_def scenarioGuilds_def guildsOrEmpty_def
      guildA_def guildB_def guildL_def scenarioEnv_def anonymousRequest_def)

lemma scenario_axios:
  "axios (scenarioEnv upstreamDown) c = Inl (JsError ''AxiosError'' ''connect ECONNREFUSED'')"
  "ax_url c \<noteq> ''http://bot/api/bot/guilds'' \<Longrightarrow>
     axios (scenarioEnv upstreamUp) c = Inr (JObject [(''ok'', JBool True)])"
  "\<exists>d. axios (scenarioEnv upstreamUp) c = Inr d"
  by (simp_all add: axios_def scenario_facts upstreamDown_def upstreamUp_def)

lemma scenario_access:
  "authorizeGuildAccess scenarioUser ''B''" "\<not> authorizeGuildAccess scenarioUser ''C''"
  by (simp_all add: authorizeGuildAccess_def scenario_facts)

lemma scenario_bits: "manageBitSet guildA" "\<not> manageBitSet guildB" "manageBitSet guildL"
  by (simp_all add: manageBitSet_def BigInt_def scenario_BigInt guildA_def guildB_def guildL_def)

theorem guild_pages_allow_exactly_members_witness:
  "isGuildPage DashboardGuild
   \<and> user (scenarioRequest ''B'') = Some scenarioUser
   \<and> authorizeGuildAccess scenarioUser ''B''
   \<and> \<not> manageBitSet guildB
   \<and> status (response (app (scenarioEnv upstreamUp) DashboardGuild (scenarioRequest ''B''))) = 200
   \<and> status (response (app (scenarioEnv upstreamDown) DashboardGuild (scenarioRequest ''B''))) = 500
   \<and> ''B'' \<notin> gs_id ` set
        [\<lparr>gs_id = ''A'', gs_name = ''Alpha'',
          gs_icon = Some ''https://cdn.discordapp.com/icons/A/a1.png'', botInGuild = True\<rparr>,
         \<lparr>gs_id = ''L'', gs_name = ''Large'', gs_icon = None, botInGuild = False\<rparr>]
   \<and> status (response (app (scenarioEnv upstreamUp) DashboardGuild (scenarioRequest ''C''))) = 403"
proof -
  have p: "isGuildPage DashboardGuild" by simp
  note u = scenario_facts(1)
  note TB = guild_pages_allow_exactly_members [OF p scenario_facts(1) [of "''B''"]]
  note TC = guild_pages_allow_exactly_members [OF p scenario_facts(1) [of "''C''"]]
  from TB [of "scenarioEnv upstreamUp" "scenarioEnv upstreamUp", THEN conjunct2, THEN conjunct1]
    scenario_access(1)
  have "\<exists>c. \<forall>d. axios (scenarioEnv upstreamUp) c = Inr d \<longrightarrow>
      status (response (app (scenarioEnv upstreamUp) DashboardGuild (scenarioRequest ''B''))) = 200"
    by (simp add: scenario_facts) blast
  then obtain c where "\<forall>d. axios (scenarioEnv upstreamUp) c = Inr d \<longrightarrow>
      status (response (app (scenarioEnv upstreamUp) DashboardGuild (scenarioRequest ''B''))) = 200"
    by blast
  moreover have "\<exists>d. axios (scenarioEnv upstreamUp) c = Inr d" by (rule scenario_axios(3))
  ultimately have up: "status (response (app (scenarioEnv upstreamUp) DashboardGuild (scenarioRequest ''B''))) = 200"
    by blast
  from TB [of "scenarioEnv upstreamDown" "scenarioEnv upstreamUp", THEN conjunct2, THEN conjunct1]
    scenario_access(1)
  have "\<exists>c. \<forall>err. axios (scenarioEnv upstreamDown) c = Inl err \<longrightarrow>
      status (response (app (scenarioEnv upstreamDown) DashboardGuild (scenarioRequest ''B''))) = 500"
    by (simp add: scenario_facts) blast
  then obtain c' where "\<forall>err. axios (scenarioEnv upstreamDown) c' = Inl err \<longrightarrow>
      status (response (app (scenarioEnv upstreamDown) DashboardGuild (scenarioRequest ''B''))) = 500"
    by blast
  moreover have "\<exists>err. axios (scenarioEnv upstreamDown) c' = Inl err"
    by (simp add: scenario_axios(1))
  ultimately have down: "status (response (app (scenarioEnv upstreamDown) DashboardGuild (scenarioRequest ''B''))) = 500"
    by blast
  from TC [of "scenarioEnv upstreamUp" "scenarioEnv upstreamUp", THEN conjunct1] scenario_access(2)
  have c403: "status (response (app (scenarioEnv upstreamUp) DashboardGuild (scenarioRequest ''C''))) = 403"
    by (simp add: scenario_facts)
  have nb: "\<forall>g\<in>set (guildsOrEmpty scenarioUser). guild_id g = ''B'' \<longrightarrow> \<not> manageBitSet g"
    by (simp add: scenario_facts scenario_bits)
  from TB [of "scenarioEnv upstreamUp" "scenarioEnv upstreamUp", THEN conjunct2, THEN conjunct2]
    nb scenario_selector [of "''B''"]
  have absent: "''B'' \<notin> gs_id ` set
        [\<lparr>gs_id = ''A'', gs_name = ''Alpha'',
          gs_icon = Some ''https://cdn.discordapp.com/icons/A/a1.png'', botInGuild = True\<rparr>,
         \<lparr>gs_id = ''L'', gs_name = ''Large'', gs_icon = None, botInGuild = False\<rparr>]"
    by (simp add: scenario_facts)
  from p u scenario_access(1) scenario_bits(2) up down absent c403 show ?thesis by simp
qed

theorem non_member_gets_403_without_upstream_call_witness:
  "isGuildPage DashboardGuild
   \<and> user (scenarioRequest ''C'') = Some scenarioUser
   \<and> \<not> authorizeGuildAccess scenarioUser (guildId (scenarioRequest ''C''))
   \<and> app (scenarioEnv upstreamUp) DashboardGuild (scenarioRequest ''C'') =
       \<lparr>response = Send 403 ''Access denied'', trace = []\<rparr>
   \<and> upstreamCalls (trace (app (scenarioEnv upstreamUp) DashboardGuild (scenarioRequest ''C''))) = []"
proof -
  have p: "isGuildPage DashboardGuild" by simp
  have n: "\<not> authorizeGuildAccess scenarioUser (guildId (scenarioRequest ''C''))"
    by (simp add: scenario_facts scenario_access)
  from non_member_gets_403_without_upstream_call [OF p scenario_facts(1) n, of "scenarioEnv upstreamUp"]
    p n scenario_facts(1) [of "''C''"]
  show ?thesis by simp
qed

subsection \<open>The auth gate\<close>

lemma dashboard_not_Redirect: "response (dashboard e req) \<noteq> Redirect p"
  by (simp add: dashboard_def dashboardError_def split: sum.splits prod.splits)

lemma guildPage_not_Redirect: "response (guildPage view page label failure owner e req) \<noteq> Redirect p"
  by (simp add: guildPage_def split: sum.splits prod.splits option.splits)

lemma apiProxy_not_Redirect: "response (apiProxy r e req) \<noteq> Redirect p"
  by (simp add: apiProxy_def proxy_def split: sum.splits prod.splits)

text \<open>
  C4. A request whose session resolves to no identity (never authenticated, or expired
  and hence absent from the store) is redirected to "/" by every protected route, with
  no upstream call, no log line and no change of the session; a protected route answers
  with that redirect only then. The gate \<open>isAuthenticated\<close> runs the rest of the route
  if and only if the request carries an identity.
\<close>
theorem anonymous_is_redirected:
  assumes "protected r"
  shows "(response (app e r req) = Redirect ''/'' \<longleftrightarrow> user req = None)
       \<and> (user req = None \<longrightarrow> serve e r req = (None, \<lparr>response = Redirect ''/'', trace = []\<rparr>))
       \<and> isAuthenticated req next =
           (if user req = None then \<lparr>response = Redirect ''/'', trace = []\<rparr> else next)"
  using assms
  by (cases r)
     (simp_all add: app_def isAuthenticated_def req_isAuthenticated_def dashboard_not_Redirect
        guildPage_not_Redirect apiProxy_not_Redirect dashboard_guild_def dashboard_aichat_def
        dashboard_suggestions_def)

theorem anonymous_is_redirected_witness:
  "protected Dashboard \<and> protected ApiAichatSave
   \<and> user (anonymousRequest ''A'') = None
   \<and> serve (scenarioEnv upstreamUp) Dashboard (anonymousRequest ''A'') =
       (None, \<lparr>response = Redirect ''/'', trace = []\<rparr>)
   \<and> serve (scenarioEnv upstreamUp) ApiAichatSave (anonymousRequest ''A'') =
       (None, \<lparr>response = Redirect ''/'', trace = []\<rparr>)
   \<and> response (app (scenarioEnv upstreamUp) DashboardGuild (scenarioRequest ''A'')) \<noteq> Redirect ''/''"
proof -
  have p: "protected Dashboard" "protected ApiAichatSave" "protected DashboardGuild" by simp_all
  from anonymous_is_redirected [OF p(1), of "scenarioEnv upstreamUp" "anonymousRequest ''A''"]
    anonymous_is_redirected [OF p(2), of "scenarioEnv upstreamUp" "anonymousRequest ''A''"]
    anonymous_is_redirected [OF p(3), of "scenarioEnv upstreamUp" "scenarioRequest ''A''"]
    p scenario_facts(1) [of "''A''"] scenario_facts(9) [of "''A''"]
  show ?thesis by simp
qed


subsection \<open>Upstream failure while rendering the selector\<close>

lemma guildSummary_no_bot:
  "guildSummary (JArray []) g =
     Inr \<lparr>gs_id = guild_id g, gs_name = guild_name g,
          gs_icon = (case guild_icon g of
                       None \<Rightarrow> None
                     | Some i \<Rightarrow>
                         if i = [] then None
                         else Some (''https://cdn.discordapp.com/icons/'' @ guild_id g @ ''/'' @ i @ ''.png'')),
          botInGuild = False\<rparr>"
  by (simp add: guildSummary_def)

lemma Array_map_total:
  "(\<And>x. f x = Inr (h x)) \<Longrightarrow> Array_map f xs = Inr (map h xs)"
  by (induction xs) simp_all

lemma Array_map_no_bot:
  "\<exists>gs. Array_map (guildSummary (JArray [])) ms = Inr gs \<and> (\<forall>s\<in>set gs. \<not> botInGuild s)"
  using Array_map_total [of "guildSummary (JArray [])" _ ms, OF guildSummary_no_bot]
  by auto

lemma fetchBotGuilds_calls:
  "upstreamCalls (snd (fetchBotGuilds e)) = [axiosConfig e ''/api/bot/guilds'' ''GET'' None]"
  by (cases "axios e (axiosConfig e ''/api/bot/guilds'' ''GET'' None)")
     (auto simp: fetchBotGuilds_def callBotAPI_def Let_def split: sum.splits option.splits)

lemma fetchBotGuilds_failed:
  "axios e (axiosConfig e ''/api/bot/guilds'' ''GET'' None) = Inl err \<Longrightarrow>
   fetchBotGuilds e =
     (JArray [],
      [AxiosCall (axiosConfig e ''/api/bot/guilds'' ''GET'' None),
       ConsoleError ''API Error [/api/bot/guilds]:'' (Message (err_message err)),
       ConsoleError ''Failed to fetch bot guilds:'' (Message (err_message err))])"
  by (simp add: fetchBotGuilds_def callBotAPI_Inl)

lemma dashboard_calls:
  "upstreamCalls (trace (dashboard e req)) =
     (case userGuilds req of
        Inl x \<Rightarrow> []
      | Inr ugs \<Rightarrow>
          (case managedGuilds ugs of
             Inl x \<Rightarrow> []
           | Inr ms \<Rightarrow> [axiosConfig e ''/api/bot/guilds'' ''GET'' None]))"
  using fetchBotGuilds_calls [of e]
  by (auto simp: dashboard_def dashboardError_def upstreamCalls_append
      split: sum.splits prod.splits)

text \<open>
  C5. For an authenticated identity, when GET /dashboard makes its upstream call (the
  bot's guild list; it is made unless a bitmask of the identity does not convert, in
  which case the handler has answered before calling) and that call is rejected, the
  selector is rendered all the same, with status 200, listing the same guilds, every
  entry with \<open>botInGuild\<close> false, and the failure is logged.
\<close>
theorem selector_survives_bot_guilds_failure:
  assumes "user req = Some u"
    and "upstreamCalls (trace (app e Dashboard req)) = [c]"
    and "axios e c = Inl err"
  shows "ax_url c = api_url (BOT_API e) @ ''/api/bot/guilds''
       \<and> (\<exists>l gs. response (app e Dashboard req) = Render 200 ''selector'' l
              \<and> l_guilds l = Some gs
              \<and> (\<forall>s\<in>set gs. \<not> botInGuild s)
              \<and> map gs_id gs = map guild_id (filter manageBitSet (guildsOrEmpty u)))
       \<and> ConsoleError ''Failed to fetch bot guilds:'' (Message (err_message err))
            \<in> set (trace (app e Dashboard req))"
proof -
  let ?c = "axiosConfig e ''/api/bot/guilds'' ''GET'' None"
  have app: "app e Dashboard req = dashboard e req"
    using assms(1) by (simp add: app_def isAuthenticated_def req_isAuthenticated_def)
  from assms(2) app dashboard_calls [of e req] assms(1)
  obtain ms where ms: "managedGuilds (guildsOrEmpty u) = Inr ms" and c: "c = ?c"
    by (auto simp: userGuilds_def split: sum.splits)
  from ms have ms': "ms = filter manageBitSet (guildsOrEmpty u)"
    by (rule managedGuilds_Inr(1))
  from assms(3) c have fb: "fetchBotGuilds e =
     (JArray [],
      [AxiosCall ?c,
       ConsoleError ''API Error [/api/bot/guilds]:'' (Message (err_message err)),
       ConsoleError ''Failed to fetch bot guilds:'' (Message (err_message err))])"
    using fetchBotGuilds_failed by simp
  from Array_map_no_bot [of ms] obtain gs where
    gs: "Array_map (guildSummary (JArray [])) ms = Inr gs" and nb: "\<forall>s\<in>set gs. \<not> botInGuild s"
    by blast
  from gs have ids: "map gs_id gs = map guild_id ms" by (rule summaries_ids)
  have out: "dashboard e req =
      \<lparr>response = Render 200 ''selector''
          \<lparr>l_user = Some u, l_guilds = Some gs, l_guild = None,
           l_botConfig = BOT_CONFIG e, l_page = Some ''selector'', l_ownerID = None\<rparr>,
       trace = [AxiosCall ?c,
         ConsoleError ''API Error [/api/bot/guilds]:'' (Message (err_message err)),
         ConsoleError ''Failed to fetch bot guilds:'' (Message (err_message err))]\<rparr>"
    using assms(1) ms fb gs by (simp add: dashboard_def userGuilds_def)
  have url: "ax_url c = api_url (BOT_API e) @ ''/api/bot/guilds''"
    using c by (simp add: axiosConfig_def)
  from url out app nb ids ms' show ?thesis by simp
qed

subsection \<open>Proxy routes\<close>

lemma apiProxy_eval:
  "apiProxy r e req =
     (case axios e (proxyConfig r e req) of
        Inr d \<Rightarrow> \<lparr>response = SendJson 200 d, trace = [AxiosCall (proxyConfig r e req)]\<rparr>
      | Inl err \<Rightarrow>
          \<lparr>response = SendJson 500 (JObject [(''error'', JString (proxyFailure r))]),
           trace = [AxiosCall (proxyConfig r e req),
                    ConsoleError (''API Error ['' @ proxyEndpoint r req @ '']:'')
                      (Message (err_message err))]\<rparr>)"
  by (simp add: apiProxy_def proxy_def proxyConfig_def callBotAPI_def Let_def split: sum.splits)

lemma app_apiProxy:
  "isProxyRoute r \<Longrightarrow> user req = Some u \<Longrightarrow> app e r req = apiProxy r e req"
  by (cases r) (simp_all add: app_def isAuthenticated_def req_isAuthenticated_def)

lemma proxyConfig_url: "ax_url (proxyConfig r e req) = api_url (BOT_API e) @ proxyEndpoint r req"
  by (simp add: proxyConfig_def axiosConfig_def)

subsection \<open>The JSON round trip\<close>

lemma floor_rat_numerals: "\<lfloor>numeral a / numeral b :: rat\<rfloor> = numeral a div numeral b"
  by (metis floor_divide_of_int_eq of_int_numeral)

lemma ceiling_rat_numerals: "\<lceil>numeral a / numeral b :: rat\<rceil> = - (- numeral a div numeral b)"
  using ceiling_divide_eq_div [of "numeral a" "numeral b"] by simp

lemmas toDouble_eval = toDouble_def roundMagnitude_def binaryScale_def floorLog_def scaleBy_def
  roundHalfEven_def digitLength_def digitsFrom.simps floor_rat_numerals ceiling_rat_numerals

lemmas shortestDecimal_eval = shortestDecimal_def shortestMagnitude_def candidate_def
  readsBack_def below_def above_def nearer_def

lemma map_fixed_iff: "map f xs = xs \<longleftrightarrow> (\<forall>x\<in>set xs. f x = x)"
  by (induction xs) auto

lemma stringify_number: "JSON_stringify (JNumber (toDouble q)) = numberRoundTrip q"
  by (cases "toDouble q") (simp_all add: numberRoundTrip_def)

lemma round_trip_iff: "JSON_stringify (JSON_parse b) = b \<longleftrightarrow> numbersSurvive b"
proof (induction b)
  case (WNumber q)
  show ?case by (simp add: stringify_number)
next
  case (WArray ws)
  then show ?case by (simp add: map_fixed_iff list_all_iff)
next
  case (WObject kvs)
  have "(\<forall>kv\<in>set kvs. (fst kv, JSON_stringify (JSON_parse (snd kv))) = kv)
        \<longleftrightarrow> (\<forall>kv\<in>set kvs. numbersSurvive (snd kv))"
  proof (intro ball_cong refl)
    fix kv assume "kv \<in> set kvs"
    moreover have "snd kv \<in> Basic_BNFs.snds kv" by (cases kv) simp
    ultimately have "JSON_stringify (JSON_parse (snd kv)) = snd kv \<longleftrightarrow> numbersSurvive (snd kv)"
      using WObject by blast
    then show "(fst kv, JSON_stringify (JSON_parse (snd kv))) = kv \<longleftrightarrow> numbersSurvive (snd kv)"
      by (cases kv) simp
  qed
  then show ?case
    by (simp add: map_fixed_iff list_all_iff case_prod_beta)
qed simp_all

lemma axios_JsonText: "upstream e c = Inr (JsonText b) \<Longrightarrow> axios e c = Inr (JSON_parse b)"
  by (simp add: axios_def)

lemma axios_OtherText: "upstream e c = Inr (OtherText t) \<Longrightarrow> axios e c = Inr (JString t)"
  by (simp add: axios_def)

lemma number_examples:
  "toDouble 7 = Finite 7"
  "shortestDecimal 7 = 7"
  "toDouble (1 / 10) = Finite (3602879701896397 / 36028797018963968)"
  "shortestDecimal (3602879701896397 / 36028797018963968) = 1 / 10"
  "toDouble (10 ^ 400) = PosInfinity"
  "toDouble 123456789012345678901 = Finite 123456789012345683968"
  "shortestDecimal 123456789012345683968 = 123456789012345680000"
  by (simp_all add: shortestDecimal_eval toDouble_eval)


text \<open>
  C6, as amended. For an authenticated request, each JSON proxy route makes exactly one
  upstream call, to its endpoint under the bot API's base URL. When that call resolves,
  the handler passes the value that axios parsed from the body to \<open>res.json\<close> with status
  200, and nothing else happens. The client thus receives the upstream's JSON value
  after one \<open>JSON.parse\<close> and one \<open>JSON.stringify\<close>: it is the same JSON value if and only
  if every number in it is written back as it was read, that is, is the shortest decimal
  of a double. A body that is not JSON arrives as a JSON string. The claim as first
  stated, the same JSON value for every successful upstream response, fails: in the
  scenario below the literal 1e400 reaches the client as \<open>null\<close> and the integer
  123456789012345678901 as 123456789012345680000.
\<close>

theorem proxy_sends_parsed_upstream_value:
  assumes "isProxyRoute r" and "user req = Some u"
  shows "\<exists>c. upstreamCalls (trace (app e r req)) = [c]
           \<and> ax_url c = api_url (BOT_API e) @ proxyEndpoint r req
           \<and> (\<forall>d. axios e c = Inr d \<longrightarrow>
                 response (app e r req) = SendJson 200 d \<and> trace (app e r req) = [AxiosCall c])
           \<and> (\<forall>b. upstream e c = Inr (JsonText b) \<longrightarrow>
                 response (app e r req) = SendJson 200 (JSON_parse b)
                 \<and> jsonBody (response (app e r req)) = Some (JSON_stringify (JSON_parse b))
                 \<and> (jsonBody (response (app e r req)) = Some b \<longleftrightarrow> numbersSurvive b))
           \<and> (\<forall>t. upstream e c = Inr (OtherText t) \<longrightarrow>
                 jsonBody (response (app e r req)) = Some (WString t))"
proof (intro exI [of _ "proxyConfig r e req"] conjI allI impI)
  show "upstreamCalls (trace (app e r req)) = [proxyConfig r e req]"
    by (simp add: app_apiProxy [OF assms] apiProxy_eval split: sum.splits)
  show "ax_url (proxyConfig r e req) = api_url (BOT_API e) @ proxyEndpoint r req"
    by (rule proxyConfig_url)
next
  fix d assume "axios e (proxyConfig r e req) = Inr d"
  then show "response (app e r req) = SendJson 200 d"
    and "trace (app e r req) = [AxiosCall (proxyConfig r e req)]"
    by (simp_all add: app_apiProxy [OF assms] apiProxy_eval)
next
  fix b assume "upstream e (proxyConfig r e req) = Inr (JsonText b)"
  then have a: "axios e (proxyConfig r e req) = Inr (JSON_parse b)" by (rule axios_JsonText)
  then show r: "response (app e r req) = SendJson 200 (JSON_parse b)"
    by (simp add: app_apiProxy [OF assms] apiProxy_eval)
  then show "jsonBody (response (app e r req)) = Some (JSON_stringify (JSON_parse b))"
    by simp
  from r show "jsonBody (response (app e r req)) = Some b \<longleftrightarrow> numbersSurvive b"
    by (simp add: round_trip_iff)
next
  fix t assume "upstream e (proxyConfig r e req) = Inr (OtherText t)"
  then have "axios e (proxyConfig r e req) = Inr (JString t)" by (rule axios_OtherText)
  then show "jsonBody (response (app e r req)) = Some (WString t)"
    by (simp add: app_apiProxy [OF assms] apiProxy_eval)
qed

text \<open>
  C7. For an authenticated request, each JSON proxy route makes exactly one upstream call
  (no retry), and when that call is rejected the response is status 500 with the body
  \<open>{error: m}\<close>, \<open>m\<close> the fixed message of the route, independent of the upstream error;
  the only other effect is the log line of \<open>callBotAPI\<close>, which names the endpoint and the
  error's message.
\<close>
theorem proxy_failure_is_generic_500:
  assumes "isProxyRoute r" and "user req = Some u"
  shows "\<exists>c. upstreamCalls (trace (app e r req)) = [c]
           \<and> ax_url c = api_url (BOT_API e) @ proxyEndpoint r req
           \<and> (\<forall>err. axios e c = Inl err \<longrightarrow>
                 response (app e r req) = SendJson 500 (JObject [(''error'', JString (proxyFailure r))])
                 \<and> trace (app e r req) =
                     [AxiosCall c,
                      ConsoleError (''API Error ['' @ proxyEndpoint r req @ '']:'')
                        (Message (err_message err))])"
proof (intro exI [of _ "proxyConfig r e req"] conjI allI impI)
  show "upstreamCalls (trace (app e r req)) = [proxyConfig r e req]"
    by (simp add: app_apiProxy [OF assms] apiProxy_eval split: sum.splits)
  show "ax_url (proxyConfig r e req) = api_url (BOT_API e) @ proxyEndpoint r req"
    by (rule proxyConfig_url)
next
  fix err assume "axios e (proxyConfig r e req) = Inl err"
  then show "response (app e r req) = SendJson 500 (JObject [(''error'', JString (proxyFailure r))])"
    and "trace (app e r req) =
                     [AxiosCall (proxyConfig r e req),
                      ConsoleError (''API Error ['' @ proxyEndpoint r req @ '']:'')
                        (Message (err_message err))]"
    by (simp_all add: app_apiProxy [OF assms] apiProxy_eval)
qed

text \<open>
  C10. On the JSON proxy routes the identity is not consulted beyond being present: for
  every authenticated identity and every \<open>guildId\<close>, member or not, the route makes its
  upstream call and forwards the result, never answers 403, and the outcome is the same
  for any other identity.
\<close>
theorem proxy_routes_check_no_membership:
  assumes "isProxyRoute r" and "user req = Some u"
  shows "(\<forall>u'. app e r (req\<lparr>user := Some u'\<rparr>) = app e r req)
       \<and> status (response (app e r req)) \<noteq> 403
       \<and> (\<exists>c. upstreamCalls (trace (app e r req)) = [c]
             \<and> ax_url c = api_url (BOT_API e) @ proxyEndpoint r req
             \<and> (\<forall>d. axios e c = Inr d \<longrightarrow> response (app e r req) = SendJson 200 d))"
proof (intro conjI)
  have "apiProxy r e (req\<lparr>user := Some u'\<rparr>) = apiProxy r e req" for u'
    by (cases r) (simp_all add: apiProxy_def)
  then show "\<forall>u'. app e r (req\<lparr>user := Some u'\<rparr>) = app e r req"
    using assms by (simp add: app_apiProxy)
  show "status (response (app e r req)) \<noteq> 403"
    by (simp add: app_apiProxy [OF assms] apiProxy_eval split: sum.splits)
  show "\<exists>c. upstreamCalls (trace (app e r req)) = [c]
             \<and> ax_url c = api_url (BOT_API e) @ proxyEndpoint r req
             \<and> (\<forall>d. axios e c = Inr d \<longrightarrow> response (app e r req) = SendJson 200 d)"
    by (rule exI [of _ "proxyConfig r e req"])
       (simp add: app_apiProxy [OF assms] apiProxy_eval proxyConfig_url split: sum.splits)
qed


subsection \<open>The scenario, with the upstream answering and refusing\<close>

lemma scenario_dashboard_calls:
  "upstreamCalls (trace (app (scenarioEnv up) Dashboard (scenarioRequest gid))) =
     [axiosConfig (scenarioEnv up) ''/api/bot/guilds'' ''GET'' None]"
  using scenario_managedGuilds
  by (simp add: app_def isAuthenticated_def req_isAuthenticated_def dashboard_calls
      userGuilds_def scenario_facts scenarioGuilds_def)

theorem selector_survives_bot_guilds_failure_witness:
  "user (scenarioRequest ''A'') = Some scenarioUser
   \<and> upstreamCalls (trace (app (scenarioEnv upstreamDown) Dashboard (scenarioRequest ''A''))) =
       [axiosConfig (scenarioEnv upstreamDown) ''/api/bot/guilds'' ''GET'' None]
   \<and> upstreamDown (axiosConfig (scenarioEnv upstreamDown) ''/api/bot/guilds'' ''GET'' None) =
       Inl (JsError ''AxiosError'' ''connect ECONNREFUSED'')
   \<and> (\<exists>l gs. response (app (scenarioEnv upstreamDown) Dashboard (scenarioRequest ''A'')) =
                Render 200 ''selector'' l
          \<and> l_guilds l = Some gs \<and> map gs_id gs = [''A'', ''L''] \<and> map botInGuild gs = [False, False])
   \<and> ConsoleError ''Failed to fetch bot guilds:'' (Message ''connect ECONNREFUSED'')
        \<in> set (trace (app (scenarioEnv upstreamDown) Dashboard (scenarioRequest ''A'')))"
proof -
  let ?e = "scenarioEnv upstreamDown"
  let ?c = "axiosConfig ?e ''/api/bot/guilds'' ''GET'' None"
  have h1: "user (scenarioRequest ''A'') = Some scenarioUser" by (rule scenario_facts)
  have h2: "upstreamCalls (trace (app ?e Dashboard (scenarioRequest ''A''))) = [?c]"
    by (rule scenario_dashboard_calls)
  have h3: "axios ?e ?c = Inl (JsError ''AxiosError'' ''connect ECONNREFUSED'')"
    by (rule scenario_axios(1))
  have h4: "upstreamDown ?c = Inl (JsError ''AxiosError'' ''connect ECONNREFUSED'')"
    by (simp add: upstreamDown_def)
  from selector_survives_bot_guilds_failure [OF h1 h2 h3]
  obtain l gs where r: "response (app ?e Dashboard (scenarioRequest ''A'')) = Render 200 ''selector'' l"
    and g: "l_guilds l = Some gs" and nb: "\<forall>s\<in>set gs. \<not> botInGuild s"
    and ids: "map gs_id gs = map guild_id (filter manageBitSet (guildsOrEmpty scenarioUser))"
    and lg: "ConsoleError ''Failed to fetch bot guilds:'' (Message ''connect ECONNREFUSED'')
        \<in> set (trace (app ?e Dashboard (scenarioRequest ''A'')))"
    by auto
  from ids have ids': "map gs_id gs = [''A'', ''L'']"
    using scenario_manageBitSet by (simp add: scenario_facts scenarioGuilds_def)
  then have "length gs = 2" by (metis length_map length_Cons list.size(3) numeral_2_eq_2)
  then obtain x y where "gs = [x, y]"
    by (metis (no_types, opaque_lifting) length_0_conv length_Suc_conv numeral_2_eq_2)
  with nb have "map botInGuild gs = [False, False]" by simp
  with h1 h2 h4 r g ids' lg show ?thesis by (auto simp: scenario_facts)
qed

lemma scenario_proxy_hyps:
  "isProxyRoute ApiGuildChannels" "isProxyRoute ApiAichatSave" "isProxyRoute ApiAichatConfig"
  "isProxyRoute ApiAnalytics"
  by simp_all

lemma scenario_proxy_calls:
  "upstreamCalls (trace (app (scenarioEnv up) r (scenarioRequest gid))) =
     (if isProxyRoute r then [proxyConfig r (scenarioEnv up) (scenarioRequest gid)]
      else upstreamCalls (trace (app (scenarioEnv up) r (scenarioRequest gid))))"
  by (simp add: app_apiProxy [OF _ scenario_facts(1)] apiProxy_eval split: sum.splits)

lemma largeBody_parsed:
  "JSON_parse largeBody =
     JObject [(''total'', JNumber PosInfinity), (''id'', JNumber (Finite 123456789012345683968))]"
  by (simp only: largeBody_def JSON_parse.simps list.map prod.case number_examples)

lemma largeBody_written:
  "JSON_stringify (JSON_parse largeBody) =
     WObject [(''total'', WNull), (''id'', WNumber 123456789012345680000)]"
  by (simp add: largeBody_parsed number_examples)

theorem proxy_alters_numbers_counterexample:
  "isProxyRoute ApiAnalytics
   \<and> user (scenarioRequest ''A'') = Some scenarioUser
   \<and> upstream (scenarioEnv upstreamLarge)
        (proxyConfig ApiAnalytics (scenarioEnv upstreamLarge) (scenarioRequest ''A'')) =
       Inr (JsonText (WObject [(''total'', WNumber (10 ^ 400)), (''id'', WNumber 123456789012345678901)]))
   \<and> upstreamCalls (trace (app (scenarioEnv upstreamLarge) ApiAnalytics (scenarioRequest ''A''))) =
       [proxyConfig ApiAnalytics (scenarioEnv upstreamLarge) (scenarioRequest ''A'')]
   \<and> response (app (scenarioEnv upstreamLarge) ApiAnalytics (scenarioRequest ''A'')) =
       SendJson 200
         (JObject [(''total'', JNumber PosInfinity), (''id'', JNumber (Finite 123456789012345683968))])
   \<and> jsonBody (response (app (scenarioEnv upstreamLarge) ApiAnalytics (scenarioRequest ''A''))) =
       Some (WObject [(''total'', WNull), (''id'', WNumber 123456789012345680000)])
   \<and> jsonBody (response (app (scenarioEnv upstreamLarge) ApiAnalytics (scenarioRequest ''A''))) \<noteq>
       Some (WObject [(''total'', WNumber (10 ^ 400)), (''id'', WNumber 123456789012345678901)])"
proof -
  let ?e = "scenarioEnv upstreamLarge"
  let ?c = "proxyConfig ApiAnalytics ?e (scenarioRequest ''A'')"
  have up: "upstream ?e ?c = Inr (JsonText largeBody)"
    by (simp add: scenario_facts upstreamLarge_def)
  then have "axios ?e ?c = Inr (JSON_parse largeBody)" by (rule axios_JsonText)
  then have r: "response (app ?e ApiAnalytics (scenarioRequest ''A'')) = SendJson 200 (JSON_parse largeBody)"
    by (simp add: app_apiProxy [OF scenario_proxy_hyps(4) scenario_facts(1)] apiProxy_eval)
  have calls: "upstreamCalls (trace (app ?e ApiAnalytics (scenarioRequest ''A''))) = [?c]"
    using scenario_proxy_calls [of upstreamLarge ApiAnalytics "''A''"] by simp
  from r have b: "jsonBody (response (app ?e ApiAnalytics (scenarioRequest ''A''))) =
      Some (WObject [(''total'', WNull), (''id'', WNumber 123456789012345680000)])"
    by (simp add: largeBody_written)
  from up r calls b scenario_facts(1) [of "''A''"] show ?thesis
    by (simp add: largeBody_parsed) (simp add: largeBody_def)
qed

lemma smallBody_parsed:
  "JSON_parse smallBody =
     JObject [(''ok'', JBool True), (''count'', JNumber (Finite 7)),
              (''ratio'', JNumber (Finite (3602879701896397 / 36028797018963968)))]"
  by (simp add: smallBody_def number_examples)

lemma smallBody_survives: "numbersSurvive smallBody"
  by (simp add: smallBody_def numberRoundTrip_def number_examples)

theorem proxy_sends_parsed_upstream_value_witness:
  "isProxyRoute ApiGuildChannels
   \<and> user (scenarioRequest ''A'') = Some scenarioUser
   \<and> upstreamCalls (trace (app (scenarioEnv upstreamSmall) ApiGuildChannels (scenarioRequest ''A''))) =
       [proxyConfig ApiGuildChannels (scenarioEnv upstreamSmall) (scenarioRequest ''A'')]
   \<and> ax_url (proxyConfig ApiGuildChannels (scenarioEnv upstreamSmall) (scenarioRequest ''A'')) =
       ''http://bot/api/guilds/A/channels''
   \<and> upstream (scenarioEnv upstreamSmall)
        (proxyConfig ApiGuildChannels (scenarioEnv upstreamSmall) (scenarioRequest ''A'')) =
       Inr (JsonText smallBody)
   \<and> numbersSurvive smallBody
   \<and> response (app (scenarioEnv upstreamSmall) ApiGuildChannels (scenarioRequest ''A'')) =
       SendJson 200
         (JObject [(''ok'', JBool True), (''count'', JNumber (Finite 7)),
                   (''ratio'', JNumber (Finite (3602879701896397 / 36028797018963968)))])
   \<and> jsonBody (response (app (scenarioEnv upstreamSmall) ApiGuildChannels (scenarioRequest ''A''))) =
       Some smallBody"
proof -
  let ?e = "scenarioEnv upstreamSmall"
  let ?c = "proxyConfig ApiGuildChannels ?e (scenarioRequest ''A'')"
  have u: "ax_url ?c = ''http://bot/api/guilds/A/channels''"
    by (simp add: proxyConfig_url scenario_facts)
  have up: "upstream ?e ?c = Inr (JsonText smallBody)"
    by (simp add: scenario_facts upstreamSmall_def)
  from proxy_sends_parsed_upstream_value [OF scenario_proxy_hyps(1) scenario_facts(1) [of "''A''"], of ?e]
  obtain c where c: "upstreamCalls (trace (app ?e ApiGuildChannels (scenarioRequest ''A''))) = [c]"
    and f: "\<forall>b. upstream ?e c = Inr (JsonText b) \<longrightarrow>
                 response (app ?e ApiGuildChannels (scenarioRequest ''A'')) = SendJson 200 (JSON_parse b)
                 \<and> jsonBody (response (app ?e ApiGuildChannels (scenarioRequest ''A''))) =
                     Some (JSON_stringify (JSON_parse b))
                 \<and> (jsonBody (response (app ?e ApiGuildChannels (scenarioRequest ''A''))) = Some b
                      \<longleftrightarrow> numbersSurvive b)"
    by blast
  have "upstreamCalls (trace (app ?e ApiGuildChannels (scenarioRequest ''A''))) = [?c]"
    using scenario_proxy_calls [of upstreamSmall ApiGuildChannels "''A''"] by simp
  with c have "c = ?c" by simp
  with f up have "response (app ?e ApiGuildChannels (scenarioRequest ''A'')) = SendJson 200 (JSON_parse smallBody)"
    and "jsonBody (response (app ?e ApiGuildChannels (scenarioRequest ''A''))) = Some smallBody
           \<longleftrightarrow> numbersSurvive smallBody"
    by blast+
  with c \<open>c = ?c\<close> u up smallBody_survives scenario_facts(1) [of "''A''"]
  show ?thesis by (simp add: smallBody_parsed)
qed

theorem proxy_failure_is_generic_500_witness:
  "isProxyRoute ApiAichatSave
   \<and> user (scenarioRequest ''A'') = Some scenarioUser
   \<and> upstreamCalls (trace (app (scenarioEnv upstreamDown) ApiAichatSave (scenarioRequest ''A''))) =
       [proxyConfig ApiAichatSave (scenarioEnv upstreamDown) (scenarioRequest ''A'')]
   \<and> upstreamDown (proxyConfig ApiAichatSave (scenarioEnv upstreamDown) (scenarioRequest ''A'')) =
       Inl (JsError ''AxiosError'' ''connect ECONNREFUSED'')
   \<and> response (app (scenarioEnv upstreamDown) ApiAichatSave (scenarioRequest ''A'')) =
       SendJson 500 (JObject [(''error'', JString ''Failed to save config'')])
   \<and> trace (app (scenarioEnv upstreamDown) ApiAichatSave (scenarioRequest ''A'')) =
       [AxiosCall (proxyConfig ApiAichatSave (scenarioEnv upstreamDown) (scenarioRequest ''A'')),
        ConsoleError ''API Error [/api/aichat/save]:'' (Message ''connect ECONNREFUSED'')]"
proof -
  let ?e = "scenarioEnv upstreamDown"
  let ?c = "proxyConfig ApiAichatSave ?e (scenarioRequest ''A'')"
  from proxy_failure_is_generic_500 [OF scenario_proxy_hyps(2) scenario_facts(1) [of "''A''"], of ?e]
  obtain c where c: "upstreamCalls (trace (app ?e ApiAichatSave (scenarioRequest ''A''))) = [c]"
    and f: "\<forall>err. axios ?e c = Inl err \<longrightarrow>
       response (app ?e ApiAichatSave (scenarioRequest ''A'')) =
         SendJson 500 (JObject [(''error'', JString (proxyFailure ApiAichatSave))])
       \<and> trace (app ?e ApiAichatSave (scenarioRequest ''A'')) =
           [AxiosCall c,
            ConsoleError (''API Error ['' @ proxyEndpoint ApiAichatSave (scenarioRequest ''A'') @ '']:'')
              (Message (err_message err))]"
    by blast
  have "upstreamCalls (trace (app ?e ApiAichatSave (scenarioRequest ''A''))) = [?c]"
    by (simp add: app_apiProxy [OF scenario_proxy_hyps(2) scenario_facts(1)] apiProxy_eval split: sum.splits)
  with c have cc: "c = ?c" by simp
  have a: "axios ?e c = Inl (JsError ''AxiosError'' ''connect ECONNREFUSED'')"
    by (rule scenario_axios(1))
  from f a have "response (app ?e ApiAichatSave (scenarioRequest ''A'')) =
         SendJson 500 (JObject [(''error'', JString (proxyFailure ApiAichatSave))])
       \<and> trace (app ?e ApiAichatSave (scenarioRequest ''A'')) =
           [AxiosCall c,
            ConsoleError (''API Error ['' @ proxyEndpoint ApiAichatSave (scenarioRequest ''A'') @ '']:'')
              (Message (err_message (JsError ''AxiosError'' ''connect ECONNREFUSED'')))]"
    by blast
  with c cc a show ?thesis by (simp add: scenario_facts upstreamDown_def)
qed

theorem proxy_routes_check_no_membership_witness:
  "isProxyRoute ApiAichatConfig
   \<and> user (scenarioRequest ''C'') = Some scenarioUser
   \<and> \<not> authorizeGuildAccess scenarioUser (guildId (scenarioRequest ''C''))
   \<and> upstreamCalls (trace (app (scenarioEnv upstreamUp) ApiAichatConfig (scenarioRequest ''C''))) =
       [proxyConfig ApiAichatConfig (scenarioEnv upstreamUp) (scenarioRequest ''C'')]
   \<and> ax_url (proxyConfig ApiAichatConfig (scenarioEnv upstreamUp) (scenarioRequest ''C'')) =
       ''http://bot/api/aichat/config/C''
   \<and> response (app (scenarioEnv upstreamUp) ApiAichatConfig (scenarioRequest ''C'')) =
       SendJson 200 (JObject [(''ok'', JBool True)])"
proof -
  let ?e = "scenarioEnv upstreamUp"
  let ?c = "proxyConfig ApiAichatConfig ?e (scenarioRequest ''C'')"
  have u: "ax_url ?c = ''http://bot/api/aichat/config/C''"
    by (simp add: proxyConfig_url scenario_facts)
  then have a: "axios ?e ?c = Inr (JObject [(''ok'', JBool True)])"
    by (simp add: scenario_axios(2))
  from proxy_routes_check_no_membership [OF scenario_proxy_hyps(3) scenario_facts(1) [of "''C''"], of ?e,
      THEN conjunct2, THEN conjunct2]
  obtain c where c: "upstreamCalls (trace (app ?e ApiAichatConfig (scenarioRequest ''C''))) = [c]"
    and f: "\<forall>d. axios ?e c = Inr d \<longrightarrow>
       response (app ?e ApiAichatConfig (scenarioRequest ''C'')) = SendJson 200 d"
    by blast
  have "upstreamCalls (trace (app ?e ApiAichatConfig (scenarioRequest ''C''))) = [?c]"
    by (simp add: app_apiProxy [OF scenario_proxy_hyps(3) scenario_facts(1)] apiProxy_eval split: sum.splits)
  with c have "c = ?c" by simp
  with c f a u scenario_access(2) show ?thesis by (simp add: scenario_facts)
qed


subsection \<open>Sessions\<close>

lemma guildSummary_name: "guildSummary bg g = Inr s \<Longrightarrow> gs_name s = guild_name g"
  by (auto simp: guildSummary_def split: sum.splits)

lemma Array_map_sources:
  assumes "Array_map f xs = Inr ys"
  shows "\<forall>y\<in>set ys. \<exists>x\<in>set xs. f x = Inr y"
proof -
  from assms have "list_all2 (\<lambda>x y. f x = Inr y) xs ys" by (rule Array_map_Inr)
  then show ?thesis by (induction rule: list_all2_induct) auto
qed

lemma serve_Dashboard: "snd (serve e Dashboard req) = app e Dashboard req"
  by (simp add: app_def)

text \<open>
  C8. Invariant: whatever requests a client has made before, every entry of a selector
  that GET /dashboard renders is built from a membership of the identity that the
  client's session holds at that request, and that membership passes the 0x20 check. The
  list is computed in the handler from \<open>req.user\<close> and the upstream answer of this
  request; the session, the only state that survives a request, holds the identity and
  no list.
\<close>
theorem surfaced_summaries_are_current_managed_members:
  assumes "response (snd (serve e Dashboard
             \<lparr>user = sessionAfter s0 history, guildId = gid, body = b\<rparr>)) = Render st view l"
  shows "\<exists>u gs. sessionAfter s0 history = Some u \<and> l_user l = Some u \<and> l_guilds l = Some gs
      \<and> (\<forall>x\<in>set gs. \<exists>g\<in>set (guildsOrEmpty u).
             gs_id x = guild_id g \<and> gs_name x = guild_name g \<and> manageBitSet g)"
proof -
  let ?req = "\<lparr>user = sessionAfter s0 history, guildId = gid, body = b\<rparr>"
  from assms have r: "response (app e Dashboard ?req) = Render st view l"
    by (simp add: app_def)
  then have "req_isAuthenticated ?req"
    by (auto simp: app_def isAuthenticated_def split: if_splits)
  with r have "response (dashboard e ?req) = Render st view l"
    by (simp add: app_def isAuthenticated_def)
  from dashboard_Render [OF this] obtain u gs where
    u: "sessionAfter s0 history = Some u" and lu: "l_user l = Some u" and gs: "l_guilds l = Some gs"
    and mp: "Array_map (guildSummary (fst (fetchBotGuilds e))) (filter manageBitSet (guildsOrEmpty u)) = Inr gs"
    by auto
  have "\<exists>g\<in>set (guildsOrEmpty u). gs_id x = guild_id g \<and> gs_name x = guild_name g \<and> manageBitSet g"
    if "x \<in> set gs" for x
  proof -
    from Array_map_sources [OF mp] that obtain g
      where g: "g \<in> set (filter manageBitSet (guildsOrEmpty u))"
        and s: "guildSummary (fst (fetchBotGuilds e)) g = Inr x"
      by blast
    from s have "gs_id x = guild_id g" "gs_name x = guild_name g"
      by (rule guildSummary_id, rule guildSummary_name)
    with g show ?thesis by auto
  qed
  with u lu gs show ?thesis by blast
qed

lemma scenario_login:
  "sessionAfter None
     [(scenarioEnv upstreamUp, Dashboard, ''A'', None),
      (scenarioLoginEnv, AuthCallback, [], None),
      (scenarioEnv upstreamDown, Privacy, [], None)] = Some scenarioUser"
  by (simp add: scenarioLoginEnv_def scenarioEnv_def auth_callback_def)

theorem surfaced_summaries_are_current_managed_members_witness:
  "sessionAfter None
     [(scenarioEnv upstreamUp, Dashboard, ''A'', None),
      (scenarioLoginEnv, AuthCallback, [], None),
      (scenarioEnv upstreamDown, Privacy, [], None)] = Some scenarioUser
   \<and> (\<exists>l gs. response (snd (serve (scenarioEnv upstreamUp) Dashboard (scenarioRequest ''A''))) =
                Render 200 ''selector'' l
          \<and> l_user l = Some scenarioUser \<and> l_guilds l = Some gs \<and> map gs_id gs = [''A'', ''L''])
   \<and> set (guildsOrEmpty scenarioUser) = {guildA, guildB, guildL}
   \<and> manageBitSet guildA \<and> manageBitSet guildL"
proof -
  let ?h = "[(scenarioEnv upstreamUp, Dashboard, ''A'', None),
      (scenarioLoginEnv, AuthCallback, [], None),
      (scenarioEnv upstreamDown, Privacy, [], None)]"
  have rq: "\<lparr>user = sessionAfter None ?h, guildId = ''A'', body = Some (JObject [])\<rparr> = scenarioRequest ''A''"
    by (simp only: scenario_login) (simp add: scenarioRequest_def)
  have r: "response (snd (serve (scenarioEnv upstreamUp) Dashboard
             \<lparr>user = sessionAfter None ?h, guildId = ''A'', body = Some (JObject [])\<rparr>)) =
      Render 200 ''selector''
       \<lparr>l_user = Some scenarioUser,
        l_guilds = Some
          [\<lparr>gs_id = ''A'', gs_name = ''Alpha'',
            gs_icon = Some ''https://cdn.discordapp.com/icons/A/a1.png'', botInGuild = True\<rparr>,
           \<lparr>gs_id = ''L'', gs_name = ''Large'', gs_icon = None, botInGuild = False\<rparr>],
        l_guild = None, l_botConfig = scenarioConfig, l_page = Some ''selector'',
        l_ownerID = None\<rparr>"
    unfolding rq serve_Dashboard by (rule scenario_selector)
  from surfaced_summaries_are_current_managed_members [OF r] r rq scenario_login scenario_bits
  show ?thesis by (simp add: scenario_facts)
qed

lemma serve_anonymous_stays:
  "r \<noteq> AuthCallback \<Longrightarrow> fst (serve e r \<lparr>user = None, guildId = gid, body = b\<rparr>) = None"
  by (cases r) (simp_all add: auth_logout_def)

lemma sessionAfter_anonymous:
  "\<forall>x\<in>set history. fst (snd x) \<noteq> AuthCallback \<Longrightarrow> sessionAfter None history = None"
proof (induction history)
  case Nil
  show ?case by simp
next
  case (Cons x history)
  obtain e r gid b where x: "x = (e, r, gid, b)" by (cases x) auto
  with Cons.prems have "r \<noteq> AuthCallback" by simp
  then have "fst (serve e r \<lparr>user = None, guildId = gid, body = b\<rparr>) = None"
    by (rule serve_anonymous_stays)
  with Cons x show ?case by simp
qed

lemma protected_anonymous:
  "protected r \<Longrightarrow>
   serve e r \<lparr>user = None, guildId = gid, body = b\<rparr> = (None, \<lparr>response = Redirect ''/'', trace = []\<rparr>)"
  by (cases r) (simp_all add: isAuthenticated_def req_isAuthenticated_def)

text \<open>
  C9. GET /auth/logout leaves the session without an identity and answers with the
  redirect to "/", which the completion callback of \<open>req.logout\<close> sends. From then on,
  until an OAuth callback succeeds, every request to a protected route is redirected to
  "/" with no other effect, exactly as for a client that never authenticated.
\<close>
theorem logout_returns_to_anonymous:
  assumes "protected r" and "\<forall>x\<in>set history. fst (snd x) \<noteq> AuthCallback"
  shows "fst (serve e AuthLogout req) = None
       \<and> response (snd (serve e AuthLogout req)) = Redirect ''/''
       \<and> sessionAfter (fst (serve e AuthLogout req)) history = None
       \<and> serve e' r \<lparr>user = sessionAfter (fst (serve e AuthLogout req)) history, guildId = gid, body = b\<rparr>
           = (None, \<lparr>response = Redirect ''/'', trace = []\<rparr>)
       \<and> serve e' r \<lparr>user = sessionAfter (fst (serve e AuthLogout req)) history, guildId = gid, body = b\<rparr>
           = serve e' r \<lparr>user = None, guildId = gid, body = b\<rparr>"
  using sessionAfter_anonymous [OF assms(2)] protected_anonymous [OF assms(1), of e' gid b]
  by (simp add: auth_logout_def)

theorem logout_returns_to_anonymous_witness:
  "protected ApiAnalytics
   \<and> user (scenarioRequest ''A'') = Some scenarioUser
   \<and> fst (serve (scenarioEnv upstreamUp) AuthLogout (scenarioRequest ''A'')) = None
   \<and> response (snd (serve (scenarioEnv upstreamUp) AuthLogout (scenarioRequest ''A''))) = Redirect ''/''
   \<and> serve (scenarioEnv upstreamUp) ApiAnalytics
        \<lparr>user = sessionAfter (fst (serve (scenarioEnv upstreamUp) AuthLogout (scenarioRequest ''A'')))
                  [(scenarioEnv upstreamUp, Landing, [], None),
                   (scenarioEnv upstreamUp, Dashboard, [], None)],
         guildId = [], body = None\<rparr>
       = (None, \<lparr>response = Redirect ''/'', trace = []\<rparr>)"
proof -
  have p: "protected ApiAnalytics" by simp
  have h: "\<forall>x\<in>set [(scenarioEnv upstreamUp, Landing, [], None),
                   (scenarioEnv upstreamUp, Dashboard, [], None)]. fst (snd x) \<noteq> AuthCallback"
    by simp
  from logout_returns_to_anonymous [OF p h, of "scenarioEnv upstreamUp" "scenarioRequest ''A''"
      "scenarioEnv upstreamUp" "[]" None] p scenario_facts(1) [of "''A''"]
  show ?thesis by blast
qed


end
